theory Spec2Isabelle
  imports Complex_Main
begin

section \<open>JavaScript values\<close>

text \<open>
  The auto-reply pipeline of \<^verbatim>\<open>src/ai/reply.ts\<close> handles untyped data: the request
  body, the rows returned by the datastore client and the JSON text returned by the
  chat-completion model. All of them are modelled by one type of JavaScript values.
  A number is taken by its numeric value (JSON text cannot denote NaN, and \<open>-0\<close> is
  as falsy as \<open>0\<close>); a string is a list of bytes (UTF-8); an object is an association
  list in which the first binding of a key is the one that is read.
\<close>

datatype jsval =
    JUndefined
  | JNull
  | JBool bool
  | JNum real
  | JStr string
  | JArr "jsval list"
  | JObj "(string \<times> jsval) list"

text \<open>What a \<^verbatim>\<open>throw\<close> carries: the errors of the language, a rejected API promise,
  or the value thrown by the program itself (\<^verbatim>\<open>throw replyError\<close>).\<close>

datatype exn = TypeError | SyntaxError | ApiError | Thrown jsval

text \<open>Truthiness, as tested by \<^verbatim>\<open>if (v)\<close>, \<^verbatim>\<open>!v\<close> and \<^verbatim>\<open>v || d\<close>.\<close>

fun truthy :: "jsval \<Rightarrow> bool" where
  "truthy JUndefined = False"
| "truthy JNull = False"
| "truthy (JBool b) = b"
| "truthy (JNum r) = (r \<noteq> 0)"
| "truthy (JStr s) = (s \<noteq> [])"
| "truthy (JArr xs) = True"
| "truthy (JObj kvs) = True"

text \<open>\<^verbatim>\<open>a || b\<close>: the left operand when it is truthy, the right one otherwise.\<close>

definition js_or :: "jsval \<Rightarrow> jsval \<Rightarrow> jsval" where
  "js_or a b = (if truthy a then a else b)"

text \<open>
  \<^verbatim>\<open>v.k\<close> for the property names the program reads (none of them is a built-in
  property of strings, numbers, booleans or arrays): reading from \<^verbatim>\<open>null\<close> or
  \<^verbatim>\<open>undefined\<close> throws a TypeError, an object gives the bound value, every other
  value gives \<^verbatim>\<open>undefined\<close>.
\<close>

fun read_prop :: "jsval \<Rightarrow> string \<Rightarrow> jsval" where
  "read_prop (JObj kvs) k = (case map_of kvs k of None \<Rightarrow> JUndefined | Some v \<Rightarrow> v)"
| "read_prop v k = JUndefined"

definition get_prop :: "jsval \<Rightarrow> string \<Rightarrow> exn + jsval" where
  "get_prop v k = (if v = JNull \<or> v = JUndefined then Inl TypeError else Inr (read_prop v k))"

text \<open>\<^verbatim>\<open>v?.k\<close>: \<^verbatim>\<open>undefined\<close> on \<^verbatim>\<open>null\<close> and \<^verbatim>\<open>undefined\<close> instead of the TypeError;
  that is what \<open>read_prop\<close> computes.\<close>

definition opt_prop :: "jsval \<Rightarrow> string \<Rightarrow> jsval" where
  "opt_prop v k = read_prop v k"

text \<open>
  The language runtime, as far as the program uses it: \<^verbatim>\<open>JSON.parse\<close> (\<open>None\<close> when
  it throws a SyntaxError) and the conversion of a number to a string. Both are
  parameters of the model.
\<close>

record runtime =
  JSON_parse :: "string \<Rightarrow> jsval option"
  Number_toString :: "real \<Rightarrow> string"

fun join_with :: "string \<Rightarrow> string list \<Rightarrow> string" where
  "join_with sep [] = []"
| "join_with sep [x] = x"
| "join_with sep (x # y # ys) = x @ sep @ join_with sep (y # ys)"

text \<open>
  The conversion to a string that a template literal \<^verbatim>\<open>`${v}`\<close> applies to a value.
  It can throw. An object is converted by its \<^verbatim>\<open>toString\<close> method; an object with a key
  \<^verbatim>\<open>toString\<close> of its own (parsed JSON can have one) has a value there that cannot be
  called, its \<^verbatim>\<open>valueOf\<close> does not give a primitive either, and the conversion throws
  a TypeError. An array is converted by joining its elements with a comma, \<^verbatim>\<open>null\<close> and
  \<^verbatim>\<open>undefined\<close> elements giving the empty string, and throws when an element does.
\<close>

fun js_toString :: "runtime \<Rightarrow> jsval \<Rightarrow> exn + string" where
  "js_toString rt JUndefined = Inr ''undefined''"
| "js_toString rt JNull = Inr ''null''"
| "js_toString rt (JBool b) = Inr (if b then ''true'' else ''false'')"
| "js_toString rt (JNum r) = Inr (Number_toString rt r)"
| "js_toString rt (JStr s) = Inr s"
| "js_toString rt (JArr xs) =
     (if list_ex isl
           (map (\<lambda>x. if x = JNull \<or> x = JUndefined then Inr [] else js_toString rt x) xs)
      then Inl TypeError
      else Inr (join_with '',''
             (map (\<lambda>x. if x = JNull \<or> x = JUndefined then [] else projr (js_toString rt x)) xs)))"
| "js_toString rt (JObj kvs) =
     (if ''toString'' \<in> set (map fst kvs) then Inl TypeError else Inr ''[object Object]'')"

text \<open>The conversion throws.\<close>

definition unconvertible :: "runtime \<Rightarrow> jsval \<Rightarrow> bool" where
  "unconvertible rt v = isl (js_toString rt v)"

section \<open>The external services\<close>

text \<open>
  A query of the datastore client resolves to a pair \<^verbatim>\<open>{data, error}\<close>, which the
  program destructures or drops. The client does not reject: it reports every failed
  query, a failed transport included, in \<^verbatim>\<open>error\<close>. A failed write is therefore a
  result whose \<^verbatim>\<open>error\<close> is truthy.
\<close>

record db_result =
  data :: jsval
  error :: jsval

text \<open>
  A chat completion either rejects (transport error, timeout, refusal by the API) or
  resolves to a response whose \<^verbatim>\<open>choices\<close> each carry \<^verbatim>\<open>message.content\<close>, a string
  or \<^verbatim>\<open>null\<close>.
\<close>

datatype chat_result = ChatRejects | ChatResolves "string option list"

text \<open>
  The outcome of every awaited external call of one invocation, in the order of the
  source: the model is a function of these outcomes, whatever they are.
\<close>

record world =
  settings_select :: db_result
  sentiment_chat :: chat_result
  sentiment_write :: db_result
  ignored_write :: db_result
  escalated_write :: db_result
  liked_write :: db_result
  brand_voice_select :: db_result
  voice_settings_select :: db_result
  reply_chat :: chat_result
  reply_insert :: db_result
  lead_chat :: chat_result
  lead_write :: db_result

text \<open>
  The requests the program sends out, recorded in the order in which it sends them.
  The prompts are left out of the chat events: the program never reads them back.
\<close>

datatype event =
    SelectSettings jsval
  | SelectBrandVoice jsval
  | UpdateComment jsval "(string \<times> jsval) list"
  | InsertAutoReply "(string \<times> jsval) list"
  | ChatSentiment jsval
  | ChatReply jsval jsval jsval jsval
  | ChatLead jsval

text \<open>\<^verbatim>\<open>response.choices[0].message.content\<close>: a TypeError when there is no choice.\<close>

definition first_content :: "string option list \<Rightarrow> exn + string option" where
  "first_content cs = (case cs of [] \<Rightarrow> Inl TypeError | c # _ \<Rightarrow> Inr c)"

text \<open>\<^verbatim>\<open>content || d\<close> for a content that is a string or \<^verbatim>\<open>null\<close>.\<close>

definition content_or :: "string option \<Rightarrow> string \<Rightarrow> string" where
  "content_or c d = (case c of None \<Rightarrow> d | Some s \<Rightarrow> if s = [] then d else s)"

section \<open>Sentiment analysis\<close>

record sentiment_result =
  sentiment :: jsval
  score :: jsval

definition default_sentiment :: sentiment_result where
  "default_sentiment = \<lparr>sentiment = JStr ''neutral'', score = JNum 0.5\<rparr>"

text \<open>What the \<^verbatim>\<open>try\<close> block of \<^verbatim>\<open>analyzeSentiment\<close> does with the completion once it has
  resolved or rejected.\<close>

definition read_sentiment :: "runtime \<Rightarrow> chat_result \<Rightarrow> exn + sentiment_result" where
  "read_sentiment rt chat =
     (case chat of
        ChatRejects \<Rightarrow> Inl ApiError
      | ChatResolves cs \<Rightarrow>
          (case first_content cs of
             Inl e \<Rightarrow> Inl e
           | Inr c \<Rightarrow>
               (case JSON_parse rt (content_or c ''{}'') of
                  None \<Rightarrow> Inl SyntaxError
                | Some parsed \<Rightarrow>
                    (case get_prop parsed ''sentiment'' of
                       Inl e \<Rightarrow> Inl e
                     | Inr s \<Rightarrow>
                         (case get_prop parsed ''score'' of
                            Inl e \<Rightarrow> Inl e
                          | Inr sc \<Rightarrow>
                              Inr \<lparr>sentiment = js_or s (JStr ''neutral''),
                                   score = js_or sc (JNum 0.5)\<rparr>)))))"

text \<open>
  The body of the \<^verbatim>\<open>try\<close> block of \<^verbatim>\<open>analyzeSentiment\<close>. The messages of the request
  are built first, and the user message interpolates the text,
  \<^verbatim>\<open>`Analyze this comment: "${text}"`\<close>: when that conversion throws, no request is
  sent. The second component is the list of requests sent.
\<close>

definition analyzeSentiment_try ::
  "runtime \<Rightarrow> chat_result \<Rightarrow> jsval \<Rightarrow> (exn + sentiment_result) \<times> event list" where
  "analyzeSentiment_try rt chat text =
     (case js_toString rt text of
        Inl e \<Rightarrow> (Inl e, [])
      | Inr t \<Rightarrow> (read_sentiment rt chat, [ChatSentiment text]))"

text \<open>\<^verbatim>\<open>analyzeSentiment\<close>: the \<^verbatim>\<open>catch\<close> block returns the default.\<close>

definition analyzeSentiment :: "runtime \<Rightarrow> chat_result \<Rightarrow> jsval \<Rightarrow> sentiment_result \<times> event list" where
  "analyzeSentiment rt chat text =
     (case analyzeSentiment_try rt chat text of
        (Inl e, evs) \<Rightarrow> (default_sentiment, evs)
      | (Inr r, evs) \<Rightarrow> (r, evs))"

section \<open>Reply generation\<close>

text \<open>The two stock replies of \<^verbatim>\<open>generateReply\<close>; both end with the emoji U+1F64C,
  four bytes in UTF-8.\<close>

definition raising_hands :: string where
  "raising_hands = [CHR 0xF0, CHR 0x9F, CHR 0x99, CHR 0x8C]"

definition fallback_empty :: string where
  "fallback_empty = ''Thanks for the comment! '' @ raising_hands"

definition fallback_error :: string where
  "fallback_error = ''Thanks for your comment! '' @ raising_hands"

text \<open>
  \<^verbatim>\<open>x ? `... ${x.join(", ")}` : ""\<close>, as the prompt has it for three optional lists of
  the settings row. Calling \<^verbatim>\<open>join\<close> on a truthy value that is not an array throws a
  TypeError; on an array it converts every element, as the conversion of the array
  itself does, and throws when an element does.
\<close>

definition join_throws :: "runtime \<Rightarrow> jsval \<Rightarrow> bool" where
  "join_throws rt x =
     (truthy x \<and> (case x of JArr xs \<Rightarrow> unconvertible rt (JArr xs) | _ \<Rightarrow> True))"

text \<open>\<^verbatim>\<open>x ? `... ${x}` : ""\<close>, as the prompt has it for the intro and the outro line.\<close>

definition line_throws :: "runtime \<Rightarrow> jsval \<Rightarrow> bool" where
  "line_throws rt x = (truthy x \<and> unconvertible rt x)"

text \<open>
  Building the system prompt and the user message throws. The interpolations are, in
  the order of the source: \<^verbatim>\<open>params.language || "English"\<close>,
  \<^verbatim>\<open>brandVoice?.brand_name || "Creator"\<close>, \<^verbatim>\<open>params.tone || "polite"\<close>, the catchphrases,
  the signature emojis, the intro line, the outro line, \<^verbatim>\<open>params.language\<close>, the
  blacklisted words, and in the user message \<^verbatim>\<open>params.tone\<close>, \<^verbatim>\<open>params.language\<close>,
  \<^verbatim>\<open>params.sentiment\<close> and \<^verbatim>\<open>params.comment_text\<close>. The two \<^verbatim>\<open>JSON.stringify\<close> calls on
  the brand values and the personality traits do not throw on data.
\<close>

definition prompt_throws ::
  "runtime \<Rightarrow> jsval \<Rightarrow> jsval \<Rightarrow> jsval \<Rightarrow> jsval \<Rightarrow> jsval \<Rightarrow> jsval \<Rightarrow> bool" where
  "prompt_throws rt brandVoice settings comment_text tone language sent =
     (unconvertible rt (js_or language (JStr ''English''))
      \<or> unconvertible rt (js_or (opt_prop brandVoice ''brand_name'') (JStr ''Creator''))
      \<or> unconvertible rt (js_or tone (JStr ''polite''))
      \<or> join_throws rt (opt_prop settings ''catchphrases'')
      \<or> join_throws rt (opt_prop settings ''signature_emojis'')
      \<or> line_throws rt (opt_prop settings ''intro_line'')
      \<or> line_throws rt (opt_prop settings ''outro_line'')
      \<or> unconvertible rt language
      \<or> join_throws rt (opt_prop settings ''blacklisted_words'')
      \<or> unconvertible rt tone
      \<or> unconvertible rt language
      \<or> unconvertible rt sent
      \<or> unconvertible rt comment_text)"

text \<open>
  The body of the \<^verbatim>\<open>try\<close> block of \<^verbatim>\<open>generateReply\<close>: the two reads (only their
  \<^verbatim>\<open>data\<close> is used), the prompt and the user message, the completion, and
  \<^verbatim>\<open>content || "Thanks for the comment! ..."\<close>.
\<close>

definition generateReply_try ::
  "runtime \<Rightarrow> db_result \<Rightarrow> db_result \<Rightarrow> chat_result
     \<Rightarrow> jsval \<Rightarrow> jsval \<Rightarrow> jsval \<Rightarrow> jsval \<Rightarrow> jsval
     \<Rightarrow> (exn + string) \<times> event list" where
  "generateReply_try rt bv st chat comment_text user_id tone language sent =
     (let brandVoice = data bv;
          settings = data st;
          reads = [SelectBrandVoice user_id, SelectSettings user_id]
      in if prompt_throws rt brandVoice settings comment_text tone language sent
         then (Inl TypeError, reads)
         else
           (let sends = reads @ [ChatReply tone language sent comment_text]
            in case chat of
                 ChatRejects \<Rightarrow> (Inl ApiError, sends)
               | ChatResolves cs \<Rightarrow>
                   (case first_content cs of
                      Inl e \<Rightarrow> (Inl e, sends)
                    | Inr c \<Rightarrow> (Inr (content_or c fallback_empty), sends))))"

text \<open>\<^verbatim>\<open>generateReply\<close>: the \<^verbatim>\<open>catch\<close> block returns the other stock reply.\<close>

definition generateReply ::
  "runtime \<Rightarrow> db_result \<Rightarrow> db_result \<Rightarrow> chat_result
     \<Rightarrow> jsval \<Rightarrow> jsval \<Rightarrow> jsval \<Rightarrow> jsval \<Rightarrow> jsval
     \<Rightarrow> string \<times> event list" where
  "generateReply rt bv st chat comment_text user_id tone language sent =
     (case generateReply_try rt bv st chat comment_text user_id tone language sent of
        (Inl e, evs) \<Rightarrow> (fallback_error, evs)
      | (Inr reply, evs) \<Rightarrow> (reply, evs))"

section \<open>Sales-lead detection\<close>

record lead_result =
  is_lead :: jsval
  temperature :: jsval

definition default_lead :: lead_result where
  "default_lead = \<lparr>is_lead = JBool False, temperature = JStr ''cold''\<rparr>"

text \<open>What the \<^verbatim>\<open>try\<close> block of \<^verbatim>\<open>detectSalesLead\<close> does with the completion.\<close>

definition read_lead :: "runtime \<Rightarrow> chat_result \<Rightarrow> exn + lead_result" where
  "read_lead rt chat =
     (case chat of
        ChatRejects \<Rightarrow> Inl ApiError
      | ChatResolves cs \<Rightarrow>
          (case first_content cs of
             Inl e \<Rightarrow> Inl e
           | Inr c \<Rightarrow>
               (case JSON_parse rt (content_or c ''{}'') of
                  None \<Rightarrow> Inl SyntaxError
                | Some parsed \<Rightarrow>
                    (case get_prop parsed ''is_lead'' of
                       Inl e \<Rightarrow> Inl e
                     | Inr l \<Rightarrow>
                         (case get_prop parsed ''temperature'' of
                            Inl e \<Rightarrow> Inl e
                          | Inr t \<Rightarrow>
                              Inr \<lparr>is_lead = js_or l (JBool False),
                                   temperature = js_or t (JStr ''cold'')\<rparr>)))))"

text \<open>The body of the \<^verbatim>\<open>try\<close> block of \<^verbatim>\<open>detectSalesLead\<close>; the user message
  \<^verbatim>\<open>`Is this a sales lead? "${text}"`\<close> is built before the request is sent.\<close>

definition detectSalesLead_try ::
  "runtime \<Rightarrow> chat_result \<Rightarrow> jsval \<Rightarrow> (exn + lead_result) \<times> event list" where
  "detectSalesLead_try rt chat text =
     (case js_toString rt text of
        Inl e \<Rightarrow> (Inl e, [])
      | Inr t \<Rightarrow> (read_lead rt chat, [ChatLead text]))"

definition detectSalesLead :: "runtime \<Rightarrow> chat_result \<Rightarrow> jsval \<Rightarrow> lead_result \<times> event list" where
  "detectSalesLead rt chat text =
     (case detectSalesLead_try rt chat text of
        (Inl e, evs) \<Rightarrow> (default_lead, evs)
      | (Inr r, evs) \<Rightarrow> (r, evs))"

section \<open>The decision pipeline\<close>

text \<open>The fields \<^verbatim>\<open>generateReplyHandler\<close> destructures from \<^verbatim>\<open>req.body\<close>; a field the
  payload does not have reads as \<^verbatim>\<open>undefined\<close>.\<close>

record request_body =
  comment_id :: jsval
  user_id :: jsval
  comment_text :: jsval
  platform :: jsval

text \<open>
  \<^verbatim>\<open>const { comment_id, user_id, comment_text, platform } = req.body\<close>, the first
  statement of the \<^verbatim>\<open>try\<close> block: destructuring \<^verbatim>\<open>undefined\<close> or \<^verbatim>\<open>null\<close> throws a
  TypeError.
\<close>

definition destructure_body :: "jsval \<Rightarrow> exn + request_body" where
  "destructure_body body =
     (if body = JNull \<or> body = JUndefined then Inl TypeError
      else Inr \<lparr>comment_id = read_prop body ''comment_id'',
                user_id = read_prop body ''user_id'',
                comment_text = read_prop body ''comment_text'',
                platform = read_prop body ''platform''\<rparr>)"

text \<open>What \<^verbatim>\<open>res.status(n).json(v)\<close> sends; \<^verbatim>\<open>res.json(v)\<close> sends it with status 200.\<close>

record response =
  status :: nat
  json :: jsval

definition settings_not_found :: response where
  "settings_not_found = \<lparr>status = 404, json = JObj [(''error'', JStr ''Settings not found'')]\<rparr>"

definition ignored_response :: response where
  "ignored_response =
     \<lparr>status = 200,
      json = JObj [(''success'', JBool True), (''action'', JStr ''ignored''),
                   (''reason'', JStr ''Spam detected'')]\<rparr>"

definition escalated_response :: response where
  "escalated_response =
     \<lparr>status = 200,
      json = JObj [(''success'', JBool True), (''action'', JStr ''escalated''),
                   (''reason'', JStr ''Hate comment - escalated to user'')]\<rparr>"

definition replied_response ::
  "jsval \<Rightarrow> string \<Rightarrow> jsval \<Rightarrow> jsval \<Rightarrow> jsval \<Rightarrow> jsval \<Rightarrow> jsval \<Rightarrow> response" where
  "replied_response rid reply_text tone language sent lead temp =
     \<lparr>status = 200,
      json = JObj [(''success'', JBool True), (''action'', JStr ''replied''),
                   (''reply'', JObj [(''id'', rid), (''text'', JStr reply_text),
                                     (''tone'', tone), (''language'', language),
                                     (''sentiment'', sent), (''is_sales_lead'', lead),
                                     (''lead_temperature'', temp)])]\<rparr>"

definition failed_response :: response where
  "failed_response = \<lparr>status = 500, json = JObj [(''error'', JStr ''Failed to generate reply'')]\<rparr>"

text \<open>
  \<^verbatim>\<open>await supabase.from("comments").update(changes).eq("id", id)\<close>: the request goes
  out, and the \<^verbatim>\<open>{data, error}\<close> it resolves to is dropped.
\<close>

definition update_comment :: "db_result \<Rightarrow> jsval \<Rightarrow> (string \<times> jsval) list \<Rightarrow> event list" where
  "update_comment result cid changes = [UpdateComment cid changes]"

definition auto_reply_row :: "jsval \<Rightarrow> jsval \<Rightarrow> string \<Rightarrow> jsval \<Rightarrow> (string \<times> jsval) list" where
  "auto_reply_row uid cid reply_text settings =
     [(''user_id'', uid), (''comment_id'', cid), (''reply_text'', JStr reply_text),
      (''tone_used'', read_prop settings ''default_tone''),
      (''language_used'', read_prop settings ''default_language''),
      (''reply_status'', JStr ''pending''), (''created_by'', JStr ''ai'')]"

text \<open>The tag \<^verbatim>\<open>`${sentiment}_lead_${temperature}`\<close>; either conversion can throw.\<close>

definition lead_tag :: "runtime \<Rightarrow> jsval \<Rightarrow> jsval \<Rightarrow> exn + string" where
  "lead_tag rt sent temp =
     (case js_toString rt sent of
        Inl e \<Rightarrow> Inl e
      | Inr s \<Rightarrow>
          (case js_toString rt temp of
             Inl e \<Rightarrow> Inl e
           | Inr t \<Rightarrow> Inr (s @ ''_lead_'' @ t)))"

text \<open>
  The \<^verbatim>\<open>try\<close> block of \<^verbatim>\<open>generateReplyHandler\<close> from its second statement on, given
  the destructured fields, step by step as in the source. The result is the response
  sent, or the exception that leaves the block, together with the requests sent so
  far. After the settings check \<^verbatim>\<open>settings\<close> is truthy, so reading its properties
  cannot throw. The changes of the lead write are built before the write is sent, so
  that a tag that throws leaves the block with no lead write.
\<close>

definition generateReplyHandler_try ::
  "runtime \<Rightarrow> world \<Rightarrow> request_body \<Rightarrow> (exn + response) \<times> event list" where
  "generateReplyHandler_try rt w b =
     (let settings = data (settings_select w);
          settingsError = error (settings_select w);
          tr1 = [SelectSettings (user_id b)]
      in if truthy settingsError \<or> \<not> truthy settings then (Inr settings_not_found, tr1)
         else
           (let (sa, ev_sa) = analyzeSentiment rt (sentiment_chat w) (comment_text b);
                sent = sentiment sa;
                sentiment_score = score sa;
                tr2 = tr1 @ ev_sa
                      @ update_comment (sentiment_write w) (comment_id b)
                          [(''sentiment'', sent), (''sentiment_score'', sentiment_score)]
            in if sent = JStr ''spam'' \<and> truthy (read_prop settings ''ignore_spam'') then
                 (Inr ignored_response,
                  tr2 @ update_comment (ignored_write w) (comment_id b)
                          [(''auto_reply_status'', JStr ''ignored'')])
               else if sent = JStr ''hate'' \<and> truthy (read_prop settings ''ignore_hate_comments'') then
                 (Inr escalated_response,
                  tr2 @ update_comment (escalated_write w) (comment_id b)
                          [(''auto_reply_status'', JStr ''escalated'')])
               else
                 (let tr3 = tr2
                        @ (if sent = JStr ''positive''
                              \<and> truthy (read_prop settings ''auto_like_positive'')
                              \<and> platform b = JStr ''instagram''
                           then update_comment (liked_write w) (comment_id b)
                                  [(''is_liked'', JBool True)]
                           else []);
                      (reply_text, ev_gr) =
                        generateReply rt (brand_voice_select w) (voice_settings_select w)
                          (reply_chat w) (comment_text b) (user_id b)
                          (js_or (read_prop settings ''default_tone'') (JStr ''polite''))
                          (js_or (read_prop settings ''default_language'') (JStr ''english''))
                          sent;
                      tr4 = tr3 @ ev_gr
                            @ [InsertAutoReply
                                 (auto_reply_row (user_id b) (comment_id b) reply_text settings)];
                      autoReply = data (reply_insert w);
                      replyError = error (reply_insert w)
                  in if truthy replyError then (Inl (Thrown replyError), tr4)
                     else
                       (let (ld, ev_ld) = detectSalesLead rt (lead_chat w) (comment_text b);
                            lead_changes =
                              (if truthy (is_lead ld)
                               then (case lead_tag rt sent (temperature ld) of
                                       Inl e \<Rightarrow> Inl e
                                     | Inr tag \<Rightarrow>
                                         Inr (update_comment (lead_write w) (comment_id b)
                                                [(''auto_reply_status'', JStr ''replied''),
                                                 (''sentiment'', JStr tag)]))
                               else Inr [])
                        in case lead_changes of
                             Inl e \<Rightarrow> (Inl e, tr4 @ ev_ld)
                           | Inr ev_lw \<Rightarrow>
                               (case get_prop autoReply ''id'' of
                                  Inl e \<Rightarrow> (Inl e, tr4 @ ev_ld @ ev_lw)
                                | Inr rid \<Rightarrow>
                                    (Inr (replied_response rid reply_text
                                            (read_prop settings ''default_tone'')
                                            (read_prop settings ''default_language'')
                                            sent (is_lead ld) (temperature ld)),
                                     tr4 @ ev_ld @ ev_lw))))))"

text \<open>
  \<^verbatim>\<open>generateReplyHandler\<close> on the destructured fields: the \<^verbatim>\<open>catch\<close> block answers 500
  to every exception. The result is the response and the requests sent, in order.
\<close>

definition generateReplyHandler :: "runtime \<Rightarrow> world \<Rightarrow> request_body \<Rightarrow> response \<times> event list" where
  "generateReplyHandler rt w b =
     (case generateReplyHandler_try rt w b of
        (Inl e, tr) \<Rightarrow> (failed_response, tr)
      | (Inr r, tr) \<Rightarrow> (r, tr))"

text \<open>
  \<^verbatim>\<open>generateReplyHandler\<close> on the request as it arrives. The destructuring of
  \<^verbatim>\<open>req.body\<close> is inside the \<^verbatim>\<open>try\<close> block: when it throws, the \<^verbatim>\<open>catch\<close> block answers 500
  and no request has been sent; otherwise the handler goes on with the fields.
\<close>

definition generateReplyHandler_req :: "runtime \<Rightarrow> world \<Rightarrow> jsval \<Rightarrow> response \<times> event list" where
  "generateReplyHandler_req rt w body =
     (case destructure_body body of
        Inl e \<Rightarrow> (failed_response, [])
      | Inr b \<Rightarrow> generateReplyHandler rt w b)"

section \<open>Names for the stages of one invocation\<close>

text \<open>
  The properties below speak about the stages of \<^verbatim>\<open>generateReplyHandler\<close>. Each
  stage gets a name here; the lemmas of the next section show that the handler, as
  defined above in one piece, is made of exactly these stages.
\<close>

text \<open>The settings check \<^verbatim>\<open>settingsError || !settings\<close> does not fire.\<close>

definition settings_found :: "world \<Rightarrow> bool" where
  "settings_found w = (\<not> truthy (error (settings_select w)) \<and> truthy (data (settings_select w)))"

text \<open>What \<^verbatim>\<open>analyzeSentiment(comment_text)\<close> returns in this invocation.\<close>

definition classified :: "runtime \<Rightarrow> world \<Rightarrow> request_body \<Rightarrow> sentiment_result" where
  "classified rt w b = fst (analyzeSentiment rt (sentiment_chat w) (comment_text b))"

definition spam_gate :: "runtime \<Rightarrow> world \<Rightarrow> request_body \<Rightarrow> bool" where
  "spam_gate rt w b =
     (sentiment (classified rt w b) = JStr ''spam''
      \<and> truthy (read_prop (data (settings_select w)) ''ignore_spam''))"

definition hate_gate :: "runtime \<Rightarrow> world \<Rightarrow> request_body \<Rightarrow> bool" where
  "hate_gate rt w b =
     (sentiment (classified rt w b) = JStr ''hate''
      \<and> truthy (read_prop (data (settings_select w)) ''ignore_hate_comments''))"

text \<open>The classification request, when the text converts to a string; nothing
  otherwise.\<close>

definition classification_request :: "runtime \<Rightarrow> request_body \<Rightarrow> event list" where
  "classification_request rt b =
     (if unconvertible rt (comment_text b) then [] else [ChatSentiment (comment_text b)])"

text \<open>The requests up to and including the write of the classification.\<close>

definition classification_events :: "runtime \<Rightarrow> world \<Rightarrow> request_body \<Rightarrow> event list" where
  "classification_events rt w b =
     SelectSettings (user_id b) # classification_request rt b
     @ [UpdateComment (comment_id b)
          [(''sentiment'', sentiment (classified rt w b)),
           (''sentiment_score'', score (classified rt w b))]]"

definition like_events :: "runtime \<Rightarrow> world \<Rightarrow> request_body \<Rightarrow> event list" where
  "like_events rt w b =
     (if sentiment (classified rt w b) = JStr ''positive''
         \<and> truthy (read_prop (data (settings_select w)) ''auto_like_positive'')
         \<and> platform b = JStr ''instagram''
      then [UpdateComment (comment_id b) [(''is_liked'', JBool True)]] else [])"

text \<open>What the call of \<^verbatim>\<open>generateReply\<close> returns and sends in this invocation.\<close>

definition generated :: "runtime \<Rightarrow> world \<Rightarrow> request_body \<Rightarrow> string \<times> event list" where
  "generated rt w b =
     generateReply rt (brand_voice_select w) (voice_settings_select w) (reply_chat w)
       (comment_text b) (user_id b)
       (js_or (read_prop (data (settings_select w)) ''default_tone'') (JStr ''polite''))
       (js_or (read_prop (data (settings_select w)) ''default_language'') (JStr ''english''))
       (sentiment (classified rt w b))"

text \<open>The requests up to and including the insert of the AutoReply row.\<close>

definition insert_events :: "runtime \<Rightarrow> world \<Rightarrow> request_body \<Rightarrow> event list" where
  "insert_events rt w b =
     classification_events rt w b @ like_events rt w b @ snd (generated rt w b)
     @ [InsertAutoReply
          (auto_reply_row (user_id b) (comment_id b) (fst (generated rt w b))
             (data (settings_select w)))]"

text \<open>The invocation gets as far as the call of \<^verbatim>\<open>detectSalesLead\<close>: the settings are
  there, neither gate fires, and the insert resolves without an error.\<close>

definition reaches_lead_detection :: "runtime \<Rightarrow> world \<Rightarrow> request_body \<Rightarrow> bool" where
  "reaches_lead_detection rt w b =
     (settings_found w \<and> \<not> spam_gate rt w b \<and> \<not> hate_gate rt w b
      \<and> \<not> truthy (error (reply_insert w)))"

text \<open>What \<^verbatim>\<open>detectSalesLead(comment_text)\<close> returns in this invocation.\<close>

definition detected :: "runtime \<Rightarrow> world \<Rightarrow> request_body \<Rightarrow> lead_result" where
  "detected rt w b = fst (detectSalesLead rt (lead_chat w) (comment_text b))"

text \<open>The detection request, when the text converts to a string; nothing otherwise.\<close>

definition lead_request :: "runtime \<Rightarrow> request_body \<Rightarrow> event list" where
  "lead_request rt b =
     (if unconvertible rt (comment_text b) then [] else [ChatLead (comment_text b)])"

text \<open>The tag of this invocation, or the exception of its conversions.\<close>

definition tagged :: "runtime \<Rightarrow> world \<Rightarrow> request_body \<Rightarrow> exn + string" where
  "tagged rt w b = lead_tag rt (sentiment (classified rt w b)) (temperature (detected rt w b))"

definition lead_events :: "runtime \<Rightarrow> world \<Rightarrow> request_body \<Rightarrow> event list" where
  "lead_events rt w b =
     lead_request rt b
     @ (if truthy (is_lead (detected rt w b))
        then (case tagged rt w b of
                Inl e \<Rightarrow> []
              | Inr tag \<Rightarrow>
                  [UpdateComment (comment_id b)
                     [(''auto_reply_status'', JStr ''replied''), (''sentiment'', JStr tag)]])
        else [])"

text \<open>Predicates on the requests sent: a write of the Comment's
  \<^verbatim>\<open>auto_reply_status\<close> alone, a write that touches a given field, an insert.\<close>

fun status_write :: "string \<Rightarrow> event \<Rightarrow> bool" where
  "status_write s (UpdateComment c changes) = (changes = [(''auto_reply_status'', JStr s)])"
| "status_write s e = False"

fun writes_field :: "string \<Rightarrow> event \<Rightarrow> bool" where
  "writes_field k (UpdateComment c changes) = (k \<in> fst ` set changes)"
| "writes_field k e = False"

fun is_insert :: "event \<Rightarrow> bool" where
  "is_insert (InsertAutoReply r) = True"
| "is_insert e = False"

section \<open>Sample data\<close>

text \<open>
  A runtime whose \<^verbatim>\<open>JSON.parse\<close> knows the texts used in the examples and throws a
  SyntaxError on every other text, a settings row, a payload, and the outcomes of one
  invocation in which every service answers.
\<close>

definition spam_json :: string where
  \<open>spam_json = ''{"sentiment":"spam","score":0.9}''\<close>

definition hate_json :: string where
  \<open>hate_json = ''{"sentiment":"hate","score":0.8}''\<close>

definition positive_json :: string where
  \<open>positive_json = ''{"sentiment":"positive","score":0.9}''\<close>

definition zero_json :: string where
  \<open>zero_json = ''{"sentiment":"","score":0}''\<close>

definition lead_json :: string where
  \<open>lead_json = ''{"is_lead":true,"temperature":"hot"}''\<close>

definition no_lead_json :: string where
  \<open>no_lead_json = ''{"is_lead":false,"temperature":"cold"}''\<close>

definition odd_lead_json :: string where
  \<open>odd_lead_json = ''{"is_lead":true,"temperature":{"toString":1}}''\<close>

definition sample_runtime :: runtime where
  "sample_runtime =
     \<lparr>JSON_parse = map_of
        [(''{}'', JObj []),
         (''null'', JNull),
         (spam_json, JObj [(''sentiment'', JStr ''spam''), (''score'', JNum 0.9)]),
         (hate_json, JObj [(''sentiment'', JStr ''hate''), (''score'', JNum 0.8)]),
         (positive_json, JObj [(''sentiment'', JStr ''positive''), (''score'', JNum 0.9)]),
         (zero_json, JObj [(''sentiment'', JStr []), (''score'', JNum 0)]),
         (lead_json, JObj [(''is_lead'', JBool True), (''temperature'', JStr ''hot'')]),
         (no_lead_json, JObj [(''is_lead'', JBool False), (''temperature'', JStr ''cold'')]),
         (odd_lead_json,
            JObj [(''is_lead'', JBool True), (''temperature'', JObj [(''toString'', JNum 1)])])],
      Number_toString = (\<lambda>r. if r = 0 then ''0'' else ''0.5'')\<rparr>"

definition sample_settings :: jsval where
  "sample_settings =
     JObj [(''user_id'', JStr ''u1''), (''default_tone'', JStr ''funny''),
           (''default_language'', JStr ''english''), (''auto_like_positive'', JBool True),
           (''ignore_spam'', JBool True), (''ignore_hate_comments'', JBool True)]"

definition sample_body :: request_body where
  "sample_body =
     \<lparr>comment_id = JStr ''c1'', user_id = JStr ''u1'',
      comment_text = JStr ''I love this!!'', platform = JStr ''instagram''\<rparr>"

text \<open>A text no template literal can take: an object with a key \<^verbatim>\<open>toString\<close>.\<close>

definition odd_text :: jsval where
  "odd_text = JObj [(''toString'', JNum 1)]"

definition db_ok :: "jsval \<Rightarrow> db_result" where
  "db_ok v = \<lparr>data = v, error = JNull\<rparr>"

definition db_failed :: db_result where
  "db_failed = \<lparr>data = JNull, error = JObj [(''message'', JStr ''write failed'')]\<rparr>"

definition sample_world :: world where
  "sample_world =
     \<lparr>settings_select = db_ok sample_settings,
      sentiment_chat = ChatResolves [Some positive_json],
      sentiment_write = db_ok JNull,
      ignored_write = db_ok JNull,
      escalated_write = db_ok JNull,
      liked_write = db_ok JNull,
      brand_voice_select = db_ok (JObj [(''brand_name'', JStr ''Sfiya'')]),
      voice_settings_select = db_ok sample_settings,
      reply_chat = ChatResolves [Some ''So glad you love it!''],
      reply_insert = db_ok (JObj [(''id'', JStr ''r1'')]),
      lead_chat = ChatResolves [Some lead_json],
      lead_write = db_ok JNull\<rparr>"

section \<open>The handler, stage by stage\<close>

lemma analyzeSentiment_events:
  "snd (analyzeSentiment rt chat t) = (if unconvertible rt t then [] else [ChatSentiment t])"
  by (simp add: analyzeSentiment_def analyzeSentiment_try_def unconvertible_def
      split: sum.splits)

lemma analyzeSentiment_unconvertible:
  "unconvertible rt t \<Longrightarrow> fst (analyzeSentiment rt chat t) = default_sentiment"
  by (cases "js_toString rt t")
    (simp_all add: analyzeSentiment_def analyzeSentiment_try_def unconvertible_def)

lemma detectSalesLead_events:
  "snd (detectSalesLead rt chat t) = (if unconvertible rt t then [] else [ChatLead t])"
  by (simp add: detectSalesLead_def detectSalesLead_try_def unconvertible_def
      split: sum.splits)

lemma detectSalesLead_unconvertible:
  "unconvertible rt t \<Longrightarrow> fst (detectSalesLead rt chat t) = default_lead"
  by (cases "js_toString rt t")
    (simp_all add: detectSalesLead_def detectSalesLead_try_def unconvertible_def)

lemma generateReply_events:
  "snd (generateReply rt bv st chat t u tone lang s) = [SelectBrandVoice u, SelectSettings u]
   \<or> snd (generateReply rt bv st chat t u tone lang s)
       = [SelectBrandVoice u, SelectSettings u, ChatReply tone lang s t]"
  by (simp add: generateReply_def generateReply_try_def Let_def
      split: chat_result.splits sum.splits)

lemma generated_events:
  "snd (generated rt w b) = [SelectBrandVoice (user_id b), SelectSettings (user_id b)]
   \<or> (\<exists>tone lang. snd (generated rt w b)
         = [SelectBrandVoice (user_id b), SelectSettings (user_id b),
            ChatReply tone lang (sentiment (classified rt w b)) (comment_text b)])"
  unfolding generated_def using generateReply_events by blast

text \<open>A classification other than the default has been requested.\<close>

lemma classified_requested:
  "sentiment (classified rt w b) \<noteq> JStr ''neutral'' \<Longrightarrow>
   classification_request rt b = [ChatSentiment (comment_text b)]"
  using analyzeSentiment_unconvertible[of rt "comment_text b" "sentiment_chat w"]
  by (auto simp add: classification_request_def classified_def default_sentiment_def)

lemmas stage_defs =
  settings_found_def spam_gate_def hate_gate_def classified_def classification_events_def
  classification_request_def like_events_def generated_def insert_events_def lead_events_def
  lead_request_def detected_def tagged_def reaches_lead_detection_def

lemmas handler_defs =
  generateReplyHandler_def generateReplyHandler_try_def Let_def update_comment_def split_beta

lemma handler_settings_missing:
  assumes "\<not> settings_found w"
  shows "generateReplyHandler rt w b = (settings_not_found, [SelectSettings (user_id b)])"
  using assms by (auto simp add: handler_defs settings_found_def)

lemma handler_spam:
  assumes "settings_found w" "spam_gate rt w b"
  shows "generateReplyHandler rt w b =
     (ignored_response,
      classification_events rt w b
      @ [UpdateComment (comment_id b) [(''auto_reply_status'', JStr ''ignored'')]])"
  using assms analyzeSentiment_events[of rt "sentiment_chat w" "comment_text b"]
  by (simp add: handler_defs stage_defs)

lemma handler_hate:
  assumes "settings_found w" "\<not> spam_gate rt w b" "hate_gate rt w b"
  shows "generateReplyHandler rt w b =
     (escalated_response,
      classification_events rt w b
      @ [UpdateComment (comment_id b) [(''auto_reply_status'', JStr ''escalated'')]])"
  using assms analyzeSentiment_events[of rt "sentiment_chat w" "comment_text b"]
  by (simp add: handler_defs stage_defs)

lemma handler_insert_fails:
  assumes "settings_found w" "\<not> spam_gate rt w b" "\<not> hate_gate rt w b"
      and "truthy (error (reply_insert w))"
  shows "generateReplyHandler rt w b = (failed_response, insert_events rt w b)"
  using assms analyzeSentiment_events[of rt "sentiment_chat w" "comment_text b"]
  by (simp add: handler_defs stage_defs)

lemma handler_insert_ok:
  assumes "settings_found w" "\<not> spam_gate rt w b" "\<not> hate_gate rt w b"
      and "\<not> truthy (error (reply_insert w))"
  shows "generateReplyHandler rt w b =
     (if truthy (is_lead (detected rt w b)) \<and> isl (tagged rt w b) then failed_response
      else if data (reply_insert w) = JNull \<or> data (reply_insert w) = JUndefined
      then failed_response
      else replied_response (read_prop (data (reply_insert w)) ''id'') (fst (generated rt w b))
             (read_prop (data (settings_select w)) ''default_tone'')
             (read_prop (data (settings_select w)) ''default_language'')
             (sentiment (classified rt w b)) (is_lead (detected rt w b))
             (temperature (detected rt w b)),
      insert_events rt w b @ lead_events rt w b)"
proof -
  note ev = analyzeSentiment_events[of rt "sentiment_chat w" "comment_text b"]
    detectSalesLead_events[of rt "lead_chat w" "comment_text b"]
  show ?thesis
  proof (cases "truthy (is_lead (detected rt w b))")
    case lead: True
    show ?thesis
    proof (cases "tagged rt w b")
      case (Inl e)
      then show ?thesis
        using assms lead ev by (simp add: handler_defs stage_defs; blast?)
    next
      case (Inr tag)
      then show ?thesis
        using assms lead ev by (simp add: handler_defs stage_defs get_prop_def; blast?)
    qed
  next
    case False
    then show ?thesis
      using assms ev by (simp add: handler_defs stage_defs get_prop_def; blast?)
  qed
qed

text \<open>The five ways through the handler.\<close>

lemma handler_cases:
  obtains
    (missing) "\<not> settings_found w"
      "generateReplyHandler rt w b = (settings_not_found, [SelectSettings (user_id b)])"
  | (spam) "settings_found w" "spam_gate rt w b"
      "generateReplyHandler rt w b =
         (ignored_response,
          classification_events rt w b
          @ [UpdateComment (comment_id b) [(''auto_reply_status'', JStr ''ignored'')]])"
  | (hate) "settings_found w" "\<not> spam_gate rt w b" "hate_gate rt w b"
      "generateReplyHandler rt w b =
         (escalated_response,
          classification_events rt w b
          @ [UpdateComment (comment_id b) [(''auto_reply_status'', JStr ''escalated'')]])"
  | (insert_fails) "settings_found w" "\<not> spam_gate rt w b" "\<not> hate_gate rt w b"
      "truthy (error (reply_insert w))"
      "generateReplyHandler rt w b = (failed_response, insert_events rt w b)"
  | (insert_ok) resp where "settings_found w" "\<not> spam_gate rt w b" "\<not> hate_gate rt w b"
      "\<not> truthy (error (reply_insert w))"
      "generateReplyHandler rt w b = (resp, insert_events rt w b @ lead_events rt w b)"
      "resp = failed_response \<or> (\<exists>rid txt tone lang lead temp.
          resp = replied_response rid txt tone lang (sentiment (classified rt w b)) lead temp)"
proof (cases "settings_found w")
  case False
  then show ?thesis using handler_settings_missing missing by blast
next
  case found: True
  show ?thesis
  proof (cases "spam_gate rt w b")
    case True
    then show ?thesis using found handler_spam spam by blast
  next
    case no_spam: False
    show ?thesis
    proof (cases "hate_gate rt w b")
      case True
      then show ?thesis using found no_spam handler_hate hate by blast
    next
      case no_hate: False
      show ?thesis
      proof (cases "truthy (error (reply_insert w))")
        case True
        then show ?thesis using found no_spam no_hate handler_insert_fails insert_fails by blast
      next
        case no_error: False
        note eq = handler_insert_ok[OF found no_spam no_hate no_error]
        let ?resp = "fst (generateReplyHandler rt w b)"
        have tr: "generateReplyHandler rt w b = (?resp, insert_events rt w b @ lead_events rt w b)"
          using eq by simp
        have "?resp = failed_response \<or> (\<exists>rid txt tone lang lead temp.
            ?resp = replied_response rid txt tone lang (sentiment (classified rt w b)) lead temp)"
        proof (cases "(truthy (is_lead (detected rt w b)) \<and> isl (tagged rt w b))
            \<or> data (reply_insert w) = JNull \<or> data (reply_insert w) = JUndefined")
          case True
          then show ?thesis using eq by auto
        next
          case False
          then have "?resp = replied_response (read_prop (data (reply_insert w)) ''id'')
              (fst (generated rt w b))
              (read_prop (data (settings_select w)) ''default_tone'')
              (read_prop (data (settings_select w)) ''default_language'')
              (sentiment (classified rt w b)) (is_lead (detected rt w b))
              (temperature (detected rt w b))"
            using eq by auto
          then show ?thesis by blast
        qed
        with tr show ?thesis
          using found no_spam no_hate no_error insert_ok by blast
      qed
    qed
  qed
qed

text \<open>Evaluating the stages on the sample data.\<close>

lemmas sample_defs =
  sample_runtime_def sample_world_def sample_body_def sample_settings_def db_ok_def db_failed_def
  spam_json_def hate_json_def positive_json_def zero_json_def lead_json_def no_lead_json_def
  odd_lead_json_def odd_text_def

lemmas eval_defs =
  analyzeSentiment_def analyzeSentiment_try_def read_sentiment_def detectSalesLead_def
  detectSalesLead_try_def read_lead_def generateReply_def generateReply_try_def
  first_content_def content_or_def get_prop_def opt_prop_def js_or_def prompt_throws_def
  join_throws_def line_throws_def unconvertible_def lead_tag_def auto_reply_row_def


section \<open>The spam gate\<close>

text \<open>
  C1. Whenever a settings record exists, the classification returns the sentiment
  \<^verbatim>\<open>"spam"\<close> and the settings have \<^verbatim>\<open>ignore_spam\<close> set, the pipeline answers
  \<^verbatim>\<open>{success: true, action: "ignored", reason: "Spam detected"}\<close> with status 200, the
  last request it sends is the write of \<^verbatim>\<open>auto_reply_status = "ignored"\<close> to the
  Comment, and it sends no insert of an AutoReply row.
\<close>

theorem spam_gate_ignored:
  assumes "settings_found w"
      and "sentiment (classified rt w b) = JStr ''spam''"
      and "truthy (read_prop (data (settings_select w)) ''ignore_spam'')"
  shows "fst (generateReplyHandler rt w b) =
           \<lparr>status = 200,
            json = JObj [(''success'', JBool True), (''action'', JStr ''ignored''),
                         (''reason'', JStr ''Spam detected'')]\<rparr>
         \<and> snd (generateReplyHandler rt w b) =
             [SelectSettings (user_id b), ChatSentiment (comment_text b),
              UpdateComment (comment_id b)
                [(''sentiment'', JStr ''spam''), (''sentiment_score'', score (classified rt w b))],
              UpdateComment (comment_id b) [(''auto_reply_status'', JStr ''ignored'')]]
         \<and> \<not> list_ex is_insert (snd (generateReplyHandler rt w b))"
proof -
  have "spam_gate rt w b"
    using assms by (simp add: spam_gate_def)
  from handler_spam[OF assms(1) this] show ?thesis
    using assms(2) classified_requested[of rt w b]
    by (simp add: classification_events_def ignored_response_def)
qed

theorem spam_gate_ignored_witness:
  "generateReplyHandler sample_runtime
     (sample_world\<lparr>sentiment_chat := ChatResolves [Some spam_json]\<rparr>) sample_body =
   (ignored_response,
    [SelectSettings (JStr ''u1''), ChatSentiment (JStr ''I love this!!''),
     UpdateComment (JStr ''c1'') [(''sentiment'', JStr ''spam''), (''sentiment_score'', JNum 0.9)],
     UpdateComment (JStr ''c1'') [(''auto_reply_status'', JStr ''ignored'')]])"
  using spam_gate_ignored[of "sample_world\<lparr>sentiment_chat := ChatResolves [Some spam_json]\<rparr>"
      sample_runtime sample_body]
  by (simp add: prod_eq_iff stage_defs sample_defs eval_defs ignored_response_def)



section \<open>The hate gate\<close>

text \<open>
  C2. Whenever a settings record exists, the classification returns the sentiment
  \<^verbatim>\<open>"hate"\<close> and the settings have \<^verbatim>\<open>ignore_hate_comments\<close> set, the pipeline answers
  \<^verbatim>\<open>{success: true, action: "escalated", reason: "Hate comment - escalated to user"}\<close>
  with status 200, the last request it sends is the write of
  \<^verbatim>\<open>auto_reply_status = "escalated"\<close> to the Comment, and it sends no insert of an
  AutoReply row. The spam gate comes first: the hate gate fires only when the spam
  gate did not, and in no invocation are both status writes sent.
\<close>

theorem hate_gate_escalated:
  "(settings_found w \<and> sentiment (classified rt w b) = JStr ''hate''
      \<and> truthy (read_prop (data (settings_select w)) ''ignore_hate_comments'')
    \<longrightarrow> fst (generateReplyHandler rt w b) =
           \<lparr>status = 200,
            json = JObj [(''success'', JBool True), (''action'', JStr ''escalated''),
                         (''reason'', JStr ''Hate comment - escalated to user'')]\<rparr>
        \<and> snd (generateReplyHandler rt w b) =
             [SelectSettings (user_id b), ChatSentiment (comment_text b),
              UpdateComment (comment_id b)
                [(''sentiment'', JStr ''hate''), (''sentiment_score'', score (classified rt w b))],
              UpdateComment (comment_id b) [(''auto_reply_status'', JStr ''escalated'')]]
        \<and> \<not> list_ex is_insert (snd (generateReplyHandler rt w b)))
   \<and> (list_ex (status_write ''escalated'') (snd (generateReplyHandler rt w b))
        \<longrightarrow> \<not> spam_gate rt w b
            \<and> \<not> list_ex (status_write ''ignored'') (snd (generateReplyHandler rt w b)))"
proof (intro conjI impI)
  assume h: "settings_found w \<and> sentiment (classified rt w b) = JStr ''hate''
      \<and> truthy (read_prop (data (settings_select w)) ''ignore_hate_comments'')"
  then have gates: "\<not> spam_gate rt w b" "hate_gate rt w b"
    by (simp_all add: spam_gate_def hate_gate_def)
  from h have found: "settings_found w" by simp
  note eq = handler_hate[OF found gates]
  show "fst (generateReplyHandler rt w b) =
           \<lparr>status = 200,
            json = JObj [(''success'', JBool True), (''action'', JStr ''escalated''),
                         (''reason'', JStr ''Hate comment - escalated to user'')]\<rparr>"
    using eq by (simp add: escalated_response_def)
  show "snd (generateReplyHandler rt w b) =
             [SelectSettings (user_id b), ChatSentiment (comment_text b),
              UpdateComment (comment_id b)
                [(''sentiment'', JStr ''hate''), (''sentiment_score'', score (classified rt w b))],
              UpdateComment (comment_id b) [(''auto_reply_status'', JStr ''escalated'')]]"
    using eq h classified_requested[of rt w b] by (auto simp add: classification_events_def classification_request_def split: if_splits)
  show "\<not> list_ex is_insert (snd (generateReplyHandler rt w b))"
    using eq by (auto simp add: classification_events_def classification_request_def split: if_splits)
next
  assume fired: "list_ex (status_write ''escalated'') (snd (generateReplyHandler rt w b))"
  show "\<not> spam_gate rt w b"
  proof (cases rule: handler_cases[of w rt b])
    case spam
    then show ?thesis using fired by (auto simp add: classification_events_def classification_request_def split: if_splits)
  qed (use fired in simp_all)
  show "\<not> list_ex (status_write ''ignored'') (snd (generateReplyHandler rt w b))"
  proof (cases rule: handler_cases[of w rt b])
    case missing
    then show ?thesis by simp
  next
    case spam
    then show ?thesis using fired by (auto simp add: classification_events_def classification_request_def split: if_splits)
  next
    case hate
    then show ?thesis by (auto simp add: classification_events_def classification_request_def split: if_splits)
  next
    case insert_fails
    then show ?thesis
      using generated_events[of rt w b]
      by (auto simp add: insert_events_def classification_events_def classification_request_def
          like_events_def)
  next
    case (insert_ok resp)
    then show ?thesis
      using generated_events[of rt w b]
      by (auto simp add: insert_events_def classification_events_def classification_request_def
          like_events_def lead_events_def lead_request_def split: sum.splits)
  qed
qed

theorem hate_gate_escalated_witness:
  "generateReplyHandler sample_runtime
     (sample_world\<lparr>sentiment_chat := ChatResolves [Some hate_json]\<rparr>) sample_body =
   (escalated_response,
    [SelectSettings (JStr ''u1''), ChatSentiment (JStr ''I love this!!''),
     UpdateComment (JStr ''c1'') [(''sentiment'', JStr ''hate''), (''sentiment_score'', JNum 0.8)],
     UpdateComment (JStr ''c1'') [(''auto_reply_status'', JStr ''escalated'')]])
   \<and> \<not> spam_gate sample_runtime
         (sample_world\<lparr>sentiment_chat := ChatResolves [Some hate_json]\<rparr>) sample_body"
  using hate_gate_escalated[of "sample_world\<lparr>sentiment_chat := ChatResolves [Some hate_json]\<rparr>"
      sample_runtime sample_body]
  by (simp add: prod_eq_iff stage_defs sample_defs eval_defs escalated_response_def)


section \<open>Missing settings\<close>

text \<open>
  C3, as the code has it. Whenever the settings lookup returns an error or no row,
  the pipeline answers with status 404 and \<^verbatim>\<open>{error: "Settings not found"}\<close>, and the
  settings lookup is the only request it has sent: no Comment is written, no row is
  inserted and no other service is called. Nothing stands in for the missing
  settings. The insert of the AutoReply row has no fallback either: once the
  invocation has passed both gates, an insert that resolves with an error or with no
  row makes the pipeline answer 500.
\<close>

theorem settings_missing_404:
  "(truthy (error (settings_select w)) \<or> \<not> truthy (data (settings_select w))
      \<longrightarrow> fst (generateReplyHandler rt w b) =
            \<lparr>status = 404, json = JObj [(''error'', JStr ''Settings not found'')]\<rparr>
          \<and> snd (generateReplyHandler rt w b) = [SelectSettings (user_id b)])
   \<and> (settings_found w \<and> \<not> spam_gate rt w b \<and> \<not> hate_gate rt w b
        \<and> (truthy (error (reply_insert w)) \<or> data (reply_insert w) = JNull
            \<or> data (reply_insert w) = JUndefined)
      \<longrightarrow> fst (generateReplyHandler rt w b) =
            \<lparr>status = 500, json = JObj [(''error'', JStr ''Failed to generate reply'')]\<rparr>)"
proof (intro conjI impI)
  assume h: "truthy (error (settings_select w)) \<or> \<not> truthy (data (settings_select w))"
  then have missing: "\<not> settings_found w"
    by (auto simp add: settings_found_def)
  show "fst (generateReplyHandler rt w b) =
            \<lparr>status = 404, json = JObj [(''error'', JStr ''Settings not found'')]\<rparr>"
    using handler_settings_missing[OF missing] by (simp add: settings_not_found_def)
  show "snd (generateReplyHandler rt w b) = [SelectSettings (user_id b)]"
    using handler_settings_missing[OF missing] by simp
next
  assume h: "settings_found w \<and> \<not> spam_gate rt w b \<and> \<not> hate_gate rt w b
        \<and> (truthy (error (reply_insert w)) \<or> data (reply_insert w) = JNull
            \<or> data (reply_insert w) = JUndefined)"
  then have stage: "settings_found w" "\<not> spam_gate rt w b" "\<not> hate_gate rt w b"
    by simp_all
  show "fst (generateReplyHandler rt w b) =
            \<lparr>status = 500, json = JObj [(''error'', JStr ''Failed to generate reply'')]\<rparr>"
  proof (cases "truthy (error (reply_insert w))")
    case True
    then show ?thesis
      using handler_insert_fails[OF stage] by (simp add: failed_response_def)
  next
    case False
    then show ?thesis
      using handler_insert_ok[OF stage] h by (auto simp add: failed_response_def)
  qed
qed

theorem settings_missing_404_witness:
  "generateReplyHandler sample_runtime
     (sample_world\<lparr>settings_select := \<lparr>data = JNull,
        error = JObj [(''code'', JStr ''PGRST116'')]\<rparr>\<rparr>) sample_body =
   (\<lparr>status = 404, json = JObj [(''error'', JStr ''Settings not found'')]\<rparr>,
    [SelectSettings (JStr ''u1'')])
   \<and> fst (generateReplyHandler sample_runtime (sample_world\<lparr>reply_insert := db_ok JNull\<rparr>)
        sample_body)
      = \<lparr>status = 500, json = JObj [(''error'', JStr ''Failed to generate reply'')]\<rparr>"
  using settings_missing_404[of "sample_world\<lparr>settings_select := \<lparr>data = JNull,
        error = JObj [(''code'', JStr ''PGRST116'')]\<rparr>\<rparr>" sample_runtime sample_body]
    settings_missing_404[of "sample_world\<lparr>reply_insert := db_ok JNull\<rparr>" sample_runtime
      sample_body]
  by (simp add: prod_eq_iff stage_defs sample_defs eval_defs)

text \<open>
  The claim as stated fails in its last clause: the settings lookup is not the only
  stage without a fallback. Here the settings are found and the insert of the
  AutoReply row resolves with an error; nothing is substituted, and the pipeline
  answers 500.
\<close>

theorem insert_has_no_fallback:
  "settings_found (sample_world\<lparr>reply_insert := db_failed\<rparr>)
   \<and> list_ex is_insert
        (snd (generateReplyHandler sample_runtime (sample_world\<lparr>reply_insert := db_failed\<rparr>)
           sample_body))
   \<and> fst (generateReplyHandler sample_runtime (sample_world\<lparr>reply_insert := db_failed\<rparr>)
        sample_body)
      = \<lparr>status = 500, json = JObj [(''error'', JStr ''Failed to generate reply'')]\<rparr>"
  by (simp add: handler_defs settings_found_def sample_defs eval_defs failed_response_def)


section \<open>Classification\<close>


lemma analyzeSentiment_truthy:
  "truthy (sentiment (fst (analyzeSentiment rt chat text)))
   \<and> truthy (score (fst (analyzeSentiment rt chat text)))"
  by (cases "js_toString rt text")
    (auto simp add: analyzeSentiment_def analyzeSentiment_try_def read_sentiment_def
      default_sentiment_def js_or_def
      split: chat_result.splits sum.splits option.splits)



text \<open>
  C10. When the classifier's content parses to an object whose \<^verbatim>\<open>score\<close> is \<open>0\<close>,
  \<^verbatim>\<open>analyzeSentiment\<close> returns the score \<open>0.5\<close>; when its \<^verbatim>\<open>sentiment\<close> is the empty string,
  it returns the sentiment \<^verbatim>\<open>"neutral"\<close>. On no input at all is the returned score \<open>0\<close> or
  the returned sentiment the empty string.
\<close>

theorem falsy_fields_replaced:
  "(JSON_parse rt (content_or c ''{}'') = Some (JObj kvs) \<and> map_of kvs ''score'' = Some (JNum 0)
      \<longrightarrow> score (fst (analyzeSentiment rt (ChatResolves (c # cs)) text)) = JNum 0.5)
   \<and> (JSON_parse rt (content_or c ''{}'') = Some (JObj kvs) \<and> map_of kvs ''sentiment'' = Some (JStr [])
      \<longrightarrow> sentiment (fst (analyzeSentiment rt (ChatResolves (c # cs)) text)) = JStr ''neutral'')
   \<and> score (fst (analyzeSentiment rt chat text)) \<noteq> JNum 0
   \<and> sentiment (fst (analyzeSentiment rt chat text)) \<noteq> JStr []"
proof (intro conjI impI)
  assume "JSON_parse rt (content_or c ''{}'') = Some (JObj kvs) \<and> map_of kvs ''score'' = Some (JNum 0)"
  then show "score (fst (analyzeSentiment rt (ChatResolves (c # cs)) text)) = JNum 0.5"
    by (cases "js_toString rt text")
      (simp_all add: analyzeSentiment_def analyzeSentiment_try_def read_sentiment_def
        default_sentiment_def first_content_def get_prop_def js_or_def)
next
  assume "JSON_parse rt (content_or c ''{}'') = Some (JObj kvs)
    \<and> map_of kvs ''sentiment'' = Some (JStr [])"
  then show "sentiment (fst (analyzeSentiment rt (ChatResolves (c # cs)) text)) = JStr ''neutral''"
    by (cases "js_toString rt text")
      (simp_all add: analyzeSentiment_def analyzeSentiment_try_def read_sentiment_def
        default_sentiment_def first_content_def get_prop_def js_or_def)
next
  show "score (fst (analyzeSentiment rt chat text)) \<noteq> JNum 0"
    using analyzeSentiment_truthy[of rt chat "text"] by auto
next
  show "sentiment (fst (analyzeSentiment rt chat text)) \<noteq> JStr []"
    using analyzeSentiment_truthy[of rt chat "text"] by auto
qed

theorem falsy_fields_replaced_witness:
  "JSON_parse sample_runtime zero_json = Some (JObj [(''sentiment'', JStr []), (''score'', JNum 0)])
   \<and> fst (analyzeSentiment sample_runtime (ChatResolves [Some zero_json]) (JStr ''hi''))
       = \<lparr>sentiment = JStr ''neutral'', score = JNum 0.5\<rparr>"
  using falsy_fields_replaced[of sample_runtime "Some zero_json"
      "[(''sentiment'', JStr []), (''score'', JNum 0)]" "[]" "JStr ''hi''"]
  by (simp add: sample_defs eval_defs)

text \<open>
  C5. In every invocation that passes the settings check, the classified
  \<^verbatim>\<open>sentiment\<close> and \<^verbatim>\<open>sentiment_score\<close> are written to the Comment before anything else
  is written, whatever happens afterwards. The write is the third request, after the
  settings lookup and the classification request; when the text cannot be put into
  the prompt, no classification request is sent and the write, of the default, is
  the second. When the invocation ends in \<^verbatim>\<open>ignored\<close> or \<^verbatim>\<open>escalated\<close>, the one request that
  follows the write is the status write, which does not touch the classification.
\<close>

theorem classification_persisted_first:
  assumes "settings_found w"
  shows "(\<not> unconvertible rt (comment_text b)
            \<longrightarrow> take 3 (snd (generateReplyHandler rt w b)) =
                 [SelectSettings (user_id b), ChatSentiment (comment_text b),
                  UpdateComment (comment_id b)
                    [(''sentiment'', sentiment (classified rt w b)),
                     (''sentiment_score'', score (classified rt w b))]])
         \<and> (unconvertible rt (comment_text b)
            \<longrightarrow> classified rt w b = \<lparr>sentiment = JStr ''neutral'', score = JNum 0.5\<rparr>
               \<and> take 2 (snd (generateReplyHandler rt w b)) =
                 [SelectSettings (user_id b),
                  UpdateComment (comment_id b)
                    [(''sentiment'', JStr ''neutral''), (''sentiment_score'', JNum 0.5)]])
         \<and> (fst (generateReplyHandler rt w b) = ignored_response
              \<longrightarrow> drop 3 (snd (generateReplyHandler rt w b))
                  = [UpdateComment (comment_id b) [(''auto_reply_status'', JStr ''ignored'')]])
         \<and> (fst (generateReplyHandler rt w b) = escalated_response
              \<longrightarrow> drop 3 (snd (generateReplyHandler rt w b))
                  = [UpdateComment (comment_id b) [(''auto_reply_status'', JStr ''escalated'')]])"
proof -
  have dflt: "unconvertible rt (comment_text b) \<Longrightarrow>
      classified rt w b = \<lparr>sentiment = JStr ''neutral'', score = JNum 0.5\<rparr>"
    using analyzeSentiment_unconvertible[of rt "comment_text b" "sentiment_chat w"]
    by (simp add: classified_def default_sentiment_def)
  show ?thesis
  proof (cases rule: handler_cases[of w rt b])
    case missing
    then show ?thesis using assms by simp
  next
    case spam
    then have "classification_request rt b = [ChatSentiment (comment_text b)]"
      using classified_requested[of rt w b] by (simp add: spam_gate_def)
    then show ?thesis
      using spam dflt
      by (auto simp add: classification_events_def classification_request_def
          ignored_response_def escalated_response_def split: if_splits)
  next
    case hate
    then have "classification_request rt b = [ChatSentiment (comment_text b)]"
      using classified_requested[of rt w b] by (simp add: hate_gate_def)
    then show ?thesis
      using hate dflt
      by (auto simp add: classification_events_def classification_request_def
          ignored_response_def escalated_response_def split: if_splits)
  next
    case insert_fails
    then show ?thesis
      using dflt
      by (auto simp add: insert_events_def classification_events_def classification_request_def
          ignored_response_def escalated_response_def failed_response_def)
  next
    case (insert_ok resp)
    then show ?thesis
      using dflt
      by (auto simp add: insert_events_def classification_events_def classification_request_def
          ignored_response_def escalated_response_def failed_response_def replied_response_def)
  qed
qed

theorem classification_persisted_first_witness:
  "take 3 (snd (generateReplyHandler sample_runtime
      (sample_world\<lparr>sentiment_chat := ChatResolves [Some spam_json]\<rparr>) sample_body)) =
     [SelectSettings (JStr ''u1''), ChatSentiment (JStr ''I love this!!''),
      UpdateComment (JStr ''c1'') [(''sentiment'', JStr ''spam''), (''sentiment_score'', JNum 0.9)]]
   \<and> drop 3 (snd (generateReplyHandler sample_runtime
      (sample_world\<lparr>sentiment_chat := ChatResolves [Some spam_json]\<rparr>) sample_body)) =
     [UpdateComment (JStr ''c1'') [(''auto_reply_status'', JStr ''ignored'')]]
   \<and> take 2 (snd (generateReplyHandler sample_runtime sample_world
      (sample_body\<lparr>comment_text := odd_text\<rparr>))) =
     [SelectSettings (JStr ''u1''),
      UpdateComment (JStr ''c1'') [(''sentiment'', JStr ''neutral''), (''sentiment_score'', JNum 0.5)]]"
proof -
  have found: "settings_found (sample_world\<lparr>sentiment_chat := ChatResolves [Some spam_json]\<rparr>)"
    "settings_found sample_world"
    by (simp_all add: settings_found_def sample_defs)
  have resp: "fst (generateReplyHandler sample_runtime
      (sample_world\<lparr>sentiment_chat := ChatResolves [Some spam_json]\<rparr>) sample_body) = ignored_response"
    by (simp add: handler_defs sample_defs eval_defs)
  show ?thesis
    using classification_persisted_first[OF found(1), of sample_runtime sample_body] resp
      classification_persisted_first[OF found(2), of sample_runtime
        "sample_body\<lparr>comment_text := odd_text\<rparr>"]
    by (simp add: stage_defs sample_defs eval_defs)
qed


section \<open>Persistence failures\<close>

lemma insert_sent_iff:
  "list_ex is_insert (snd (generateReplyHandler rt w b))
   \<longleftrightarrow> settings_found w \<and> \<not> spam_gate rt w b \<and> \<not> hate_gate rt w b"
proof (cases rule: handler_cases[of w rt b])
  case missing
  then show ?thesis by simp
next
  case spam
  then show ?thesis by (simp add: classification_events_def classification_request_def)
next
  case hate
  then show ?thesis by (simp add: classification_events_def classification_request_def)
next
  case insert_fails
  then show ?thesis by (simp add: insert_events_def)
next
  case (insert_ok resp)
  then show ?thesis by (simp add: insert_events_def)
qed

text \<open>
  C6, as the code has it. When the insert of the AutoReply row has been sent and
  resolves with an error, the pipeline answers with status 500 and
  \<^verbatim>\<open>{error: "Failed to generate reply"}\<close>, and the insert is the last request it sends.
  The results of the five Comment writes are never inspected: replacing them by any
  other results changes neither the response nor the requests sent.
\<close>

theorem insert_failure_aborts:
  "(list_ex is_insert (snd (generateReplyHandler rt w b)) \<and> truthy (error (reply_insert w))
      \<longrightarrow> fst (generateReplyHandler rt w b) =
            \<lparr>status = 500, json = JObj [(''error'', JStr ''Failed to generate reply'')]\<rparr>
          \<and> is_insert (last (snd (generateReplyHandler rt w b))))
   \<and> generateReplyHandler rt
        (w\<lparr>sentiment_write := r1, ignored_write := r2, escalated_write := r3,
           liked_write := r4, lead_write := r5\<rparr>) b
      = generateReplyHandler rt w b"
proof (intro conjI impI)
  assume h: "list_ex is_insert (snd (generateReplyHandler rt w b)) \<and> truthy (error (reply_insert w))"
  then have "settings_found w" "\<not> spam_gate rt w b" "\<not> hate_gate rt w b"
    using insert_sent_iff[of rt w b] by simp_all
  from handler_insert_fails[OF this] h
  have eq: "generateReplyHandler rt w b = (failed_response, insert_events rt w b)"
    by simp
  show "fst (generateReplyHandler rt w b) =
            \<lparr>status = 500, json = JObj [(''error'', JStr ''Failed to generate reply'')]\<rparr>"
    using eq by (simp add: failed_response_def)
  show "is_insert (last (snd (generateReplyHandler rt w b)))"
    using eq by (simp add: insert_events_def)
next
  show "generateReplyHandler rt
        (w\<lparr>sentiment_write := r1, ignored_write := r2, escalated_write := r3,
           liked_write := r4, lead_write := r5\<rparr>) b
      = generateReplyHandler rt w b"
    unfolding generateReplyHandler_def generateReplyHandler_try_def update_comment_def
    by (simp add: Let_def split_beta cong: if_cong sum.case_cong)
qed

theorem insert_failure_aborts_witness:
  "generateReplyHandler sample_runtime (sample_world\<lparr>reply_insert := db_failed\<rparr>) sample_body =
   (failed_response,
    [SelectSettings (JStr ''u1''), ChatSentiment (JStr ''I love this!!''),
     UpdateComment (JStr ''c1'')
       [(''sentiment'', JStr ''positive''), (''sentiment_score'', JNum 0.9)],
     UpdateComment (JStr ''c1'') [(''is_liked'', JBool True)],
     SelectBrandVoice (JStr ''u1''), SelectSettings (JStr ''u1''),
     ChatReply (JStr ''funny'') (JStr ''english'') (JStr ''positive'') (JStr ''I love this!!''),
     InsertAutoReply
       [(''user_id'', JStr ''u1''), (''comment_id'', JStr ''c1''),
        (''reply_text'', JStr ''So glad you love it!''), (''tone_used'', JStr ''funny''),
        (''language_used'', JStr ''english''), (''reply_status'', JStr ''pending''),
        (''created_by'', JStr ''ai'')]])"
proof -
  have sent: "snd (generateReplyHandler sample_runtime
      (sample_world\<lparr>reply_insert := db_failed\<rparr>) sample_body) =
    [SelectSettings (JStr ''u1''), ChatSentiment (JStr ''I love this!!''),
     UpdateComment (JStr ''c1'')
       [(''sentiment'', JStr ''positive''), (''sentiment_score'', JNum 0.9)],
     UpdateComment (JStr ''c1'') [(''is_liked'', JBool True)],
     SelectBrandVoice (JStr ''u1''), SelectSettings (JStr ''u1''),
     ChatReply (JStr ''funny'') (JStr ''english'') (JStr ''positive'') (JStr ''I love this!!''),
     InsertAutoReply
       [(''user_id'', JStr ''u1''), (''comment_id'', JStr ''c1''),
        (''reply_text'', JStr ''So glad you love it!''), (''tone_used'', JStr ''funny''),
        (''language_used'', JStr ''english''), (''reply_status'', JStr ''pending''),
        (''created_by'', JStr ''ai'')]]"
    by (simp add: handler_defs sample_defs eval_defs)
  have failed: "truthy (error (reply_insert (sample_world\<lparr>reply_insert := db_failed\<rparr>)))"
    by (simp add: db_failed_def)
  show ?thesis
    using insert_failure_aborts[of sample_runtime "sample_world\<lparr>reply_insert := db_failed\<rparr>"
        sample_body] sent failed
    by (simp add: prod_eq_iff failed_response_def)
qed

text \<open>
  The claim as stated fails: here the write of the classification resolves with an
  error, and the pipeline still answers \<^verbatim>\<open>success: true, action: "replied"\<close>; there the
  write of the status \<^verbatim>\<open>ignored\<close> resolves with an error, and the pipeline still answers
  \<^verbatim>\<open>success: true, action: "ignored"\<close>.
\<close>

theorem comment_write_failure_ignored:
  "truthy (error (sentiment_write (sample_world\<lparr>sentiment_write := db_failed\<rparr>)))
   \<and> fst (generateReplyHandler sample_runtime
            (sample_world\<lparr>sentiment_write := db_failed\<rparr>) sample_body)
       = \<lparr>status = 200,
          json = JObj [(''success'', JBool True), (''action'', JStr ''replied''),
                       (''reply'', JObj [(''id'', JStr ''r1''), (''text'', JStr ''So glad you love it!''),
                                         (''tone'', JStr ''funny''), (''language'', JStr ''english''),
                                         (''sentiment'', JStr ''positive''),
                                         (''is_sales_lead'', JBool True),
                                         (''lead_temperature'', JStr ''hot'')])]\<rparr>
   \<and> truthy (error (ignored_write
        (sample_world\<lparr>sentiment_chat := ChatResolves [Some spam_json], ignored_write := db_failed\<rparr>)))
   \<and> fst (generateReplyHandler sample_runtime
            (sample_world\<lparr>sentiment_chat := ChatResolves [Some spam_json], ignored_write := db_failed\<rparr>)
            sample_body)
       = \<lparr>status = 200,
          json = JObj [(''success'', JBool True), (''action'', JStr ''ignored''),
                       (''reason'', JStr ''Spam detected'')]\<rparr>"
  by (simp add: handler_defs sample_defs eval_defs replied_response_def ignored_response_def)


section \<open>Lead detection\<close>

lemma lead_request_reaches:
  assumes "ChatLead (comment_text b) \<in> set (snd (generateReplyHandler rt w b))"
  shows "reaches_lead_detection rt w b"
proof (cases rule: handler_cases[of w rt b])
  case missing
  then show ?thesis using assms by simp
next
  case spam
  then show ?thesis
    using assms
    by (auto simp add: classification_events_def classification_request_def split: if_splits)
next
  case hate
  then show ?thesis
    using assms
    by (auto simp add: classification_events_def classification_request_def split: if_splits)
next
  case insert_fails
  then show ?thesis
    using assms generated_events[of rt w b]
    by (auto simp add: insert_events_def classification_events_def classification_request_def
        like_events_def split: if_splits)
next
  case (insert_ok resp)
  then show ?thesis by (simp add: reaches_lead_detection_def)
qed

lemma js_toString_throws: "unconvertible rt v \<Longrightarrow> js_toString rt v = Inl TypeError"
  by (cases v) (auto simp add: unconvertible_def split: if_splits)

lemma insert_events_sentiment_writes:
  "filter (writes_field ''sentiment'') (insert_events rt w b) =
     [UpdateComment (comment_id b)
        [(''sentiment'', sentiment (classified rt w b)),
         (''sentiment_score'', score (classified rt w b))]]"
  using generated_events[of rt w b]
  by (auto simp add: insert_events_def classification_events_def classification_request_def
      like_events_def)

lemma insert_events_status_writes:
  "\<not> list_ex (writes_field ''auto_reply_status'') (insert_events rt w b)"
  using generated_events[of rt w b]
  by (auto simp add: insert_events_def classification_events_def classification_request_def
      like_events_def)

text \<open>
  C7, as the code has it. In every invocation that reaches lead detection: when the
  detector's \<^verbatim>\<open>is_lead\<close> is truthy and the sentiment and the temperature convert to the
  strings \<open>s\<close> and \<open>t\<close> (strings convert to themselves), the last request sent is the
  write to the Comment of \<^verbatim>\<open>auto_reply_status = "replied"\<close> together with the sentiment
  \<open>s\<close> followed by \<^verbatim>\<open>_lead_\<close> and \<open>t\<close>. When \<^verbatim>\<open>is_lead\<close> is truthy and one of the two does
  not convert, the pipeline answers 500 and sends no write after the insert. When
  \<^verbatim>\<open>is_lead\<close> is not truthy, nothing is sent after the detection request. In the last
  two cases the write of the classification is the only request of the invocation
  that touches the Comment's sentiment.
\<close>

theorem lead_tagging:
  assumes "reaches_lead_detection rt w b"
  shows "(truthy (is_lead (detected rt w b))
            \<and> js_toString rt (sentiment (classified rt w b)) = Inr s
            \<and> js_toString rt (temperature (detected rt w b)) = Inr t
            \<longrightarrow> last (snd (generateReplyHandler rt w b)) =
                  UpdateComment (comment_id b)
                    [(''auto_reply_status'', JStr ''replied''),
                     (''sentiment'', JStr (s @ ''_lead_'' @ t))])
         \<and> (truthy (is_lead (detected rt w b)) \<and> sentiment (classified rt w b) = JStr s
              \<and> temperature (detected rt w b) = JStr t
            \<longrightarrow> last (snd (generateReplyHandler rt w b)) =
                  UpdateComment (comment_id b)
                    [(''auto_reply_status'', JStr ''replied''),
                     (''sentiment'', JStr (s @ ''_lead_'' @ t))])
         \<and> (truthy (is_lead (detected rt w b))
              \<and> (unconvertible rt (sentiment (classified rt w b))
                  \<or> unconvertible rt (temperature (detected rt w b)))
            \<longrightarrow> fst (generateReplyHandler rt w b) = failed_response
                \<and> snd (generateReplyHandler rt w b) = insert_events rt w b @ lead_request rt b
                \<and> \<not> list_ex (writes_field ''auto_reply_status'') (snd (generateReplyHandler rt w b))
                \<and> filter (writes_field ''sentiment'') (snd (generateReplyHandler rt w b)) =
                    [UpdateComment (comment_id b)
                       [(''sentiment'', sentiment (classified rt w b)),
                        (''sentiment_score'', score (classified rt w b))]])
         \<and> (\<not> truthy (is_lead (detected rt w b))
            \<longrightarrow> snd (generateReplyHandler rt w b) = insert_events rt w b @ lead_request rt b
                \<and> (\<not> unconvertible rt (comment_text b)
                     \<longrightarrow> last (snd (generateReplyHandler rt w b)) = ChatLead (comment_text b))
                \<and> filter (writes_field ''sentiment'') (snd (generateReplyHandler rt w b)) =
                    [UpdateComment (comment_id b)
                       [(''sentiment'', sentiment (classified rt w b)),
                        (''sentiment_score'', score (classified rt w b))]])"
proof -
  from assms have stage: "settings_found w" "\<not> spam_gate rt w b" "\<not> hate_gate rt w b"
    "\<not> truthy (error (reply_insert w))"
    by (simp_all add: reaches_lead_detection_def)
  note eq = handler_insert_ok[OF stage]
  have tr: "snd (generateReplyHandler rt w b) = insert_events rt w b @ lead_events rt w b"
    using eq by simp
  note writes = insert_events_sentiment_writes[of rt w b] insert_events_status_writes[of rt w b]
  have converted: "last (snd (generateReplyHandler rt w b)) =
      UpdateComment (comment_id b)
        [(''auto_reply_status'', JStr ''replied''), (''sentiment'', JStr (s' @ ''_lead_'' @ t'))]"
    if "truthy (is_lead (detected rt w b))"
      "js_toString rt (sentiment (classified rt w b)) = Inr s'"
      "js_toString rt (temperature (detected rt w b)) = Inr t'" for s' t'
    using that by (simp add: tr lead_events_def tagged_def lead_tag_def)
  have thrown: "tagged rt w b = Inl TypeError"
    if "unconvertible rt (sentiment (classified rt w b))
        \<or> unconvertible rt (temperature (detected rt w b))"
  proof (cases "js_toString rt (sentiment (classified rt w b))")
    case (Inl e)
    then show ?thesis
      using js_toString_throws[of rt "sentiment (classified rt w b)"]
      by (simp add: tagged_def lead_tag_def unconvertible_def)
  next
    case (Inr s')
    then have "unconvertible rt (temperature (detected rt w b))"
      using that by (simp add: unconvertible_def)
    then show ?thesis
      using Inr js_toString_throws[of rt "temperature (detected rt w b)"]
      by (simp add: tagged_def lead_tag_def)
  qed
  show ?thesis
  proof (intro conjI impI)
    assume "truthy (is_lead (detected rt w b))
            \<and> js_toString rt (sentiment (classified rt w b)) = Inr s
            \<and> js_toString rt (temperature (detected rt w b)) = Inr t"
    then show "last (snd (generateReplyHandler rt w b)) =
                  UpdateComment (comment_id b)
                    [(''auto_reply_status'', JStr ''replied''),
                     (''sentiment'', JStr (s @ ''_lead_'' @ t))]"
      using converted by blast
  next
    assume "truthy (is_lead (detected rt w b)) \<and> sentiment (classified rt w b) = JStr s
              \<and> temperature (detected rt w b) = JStr t"
    then show "last (snd (generateReplyHandler rt w b)) =
                  UpdateComment (comment_id b)
                    [(''auto_reply_status'', JStr ''replied''),
                     (''sentiment'', JStr (s @ ''_lead_'' @ t))]"
      using converted[of s t] by simp
  next
    assume h: "truthy (is_lead (detected rt w b))
              \<and> (unconvertible rt (sentiment (classified rt w b))
                  \<or> unconvertible rt (temperature (detected rt w b)))"
    then have tag: "tagged rt w b = Inl TypeError" using thrown by blast
    show "fst (generateReplyHandler rt w b) = failed_response"
      using eq h tag by simp
    show throw_tr: "snd (generateReplyHandler rt w b) = insert_events rt w b @ lead_request rt b"
      using h tag by (simp add: tr lead_events_def)
    show "\<not> list_ex (writes_field ''auto_reply_status'') (snd (generateReplyHandler rt w b))"
      using writes by (simp add: throw_tr lead_request_def)
    show "filter (writes_field ''sentiment'') (snd (generateReplyHandler rt w b)) =
                    [UpdateComment (comment_id b)
                       [(''sentiment'', sentiment (classified rt w b)),
                        (''sentiment_score'', score (classified rt w b))]]"
      using writes by (simp add: throw_tr lead_request_def)
  next
    assume h: "\<not> truthy (is_lead (detected rt w b))"
    show no_tr: "snd (generateReplyHandler rt w b) = insert_events rt w b @ lead_request rt b"
      using h by (simp add: tr lead_events_def)
    show "filter (writes_field ''sentiment'') (snd (generateReplyHandler rt w b)) =
                    [UpdateComment (comment_id b)
                       [(''sentiment'', sentiment (classified rt w b)),
                        (''sentiment_score'', score (classified rt w b))]]"
      using writes by (simp add: no_tr lead_request_def)
  next
    assume h: "\<not> truthy (is_lead (detected rt w b))" and c: "\<not> unconvertible rt (comment_text b)"
    then show "last (snd (generateReplyHandler rt w b)) = ChatLead (comment_text b)"
      by (simp add: tr lead_events_def lead_request_def)
  qed
qed

theorem lead_tagging_witness:
  "last (snd (generateReplyHandler sample_runtime sample_world sample_body)) =
     UpdateComment (JStr ''c1'')
       [(''auto_reply_status'', JStr ''replied''), (''sentiment'', JStr ''positive_lead_hot'')]
   \<and> last (snd (generateReplyHandler sample_runtime
        (sample_world\<lparr>lead_chat := ChatResolves [Some no_lead_json]\<rparr>) sample_body))
       = ChatLead (JStr ''I love this!!'')
   \<and> filter (writes_field ''sentiment'') (snd (generateReplyHandler sample_runtime
        (sample_world\<lparr>lead_chat := ChatResolves [Some no_lead_json]\<rparr>) sample_body))
       = [UpdateComment (JStr ''c1'')
            [(''sentiment'', JStr ''positive''), (''sentiment_score'', JNum 0.9)]]
   \<and> fst (generateReplyHandler sample_runtime
        (sample_world\<lparr>lead_chat := ChatResolves [Some odd_lead_json]\<rparr>) sample_body)
       = failed_response"
proof -
  let ?w2 = "sample_world\<lparr>lead_chat := ChatResolves [Some no_lead_json]\<rparr>"
  let ?w3 = "sample_world\<lparr>lead_chat := ChatResolves [Some odd_lead_json]\<rparr>"
  have reach: "reaches_lead_detection sample_runtime sample_world sample_body"
    "reaches_lead_detection sample_runtime ?w2 sample_body"
    "reaches_lead_detection sample_runtime ?w3 sample_body"
    by (simp_all add: reaches_lead_detection_def settings_found_def spam_gate_def hate_gate_def
        classified_def sample_defs eval_defs)
  have cls: "classified sample_runtime sample_world sample_body
      = \<lparr>sentiment = JStr ''positive'', score = JNum 0.9\<rparr>"
    "classified sample_runtime ?w2 sample_body
      = \<lparr>sentiment = JStr ''positive'', score = JNum 0.9\<rparr>"
    "classified sample_runtime ?w3 sample_body
      = \<lparr>sentiment = JStr ''positive'', score = JNum 0.9\<rparr>"
    by (simp_all add: classified_def sample_defs eval_defs)
  have det: "detected sample_runtime sample_world sample_body
      = \<lparr>is_lead = JBool True, temperature = JStr ''hot''\<rparr>"
    "detected sample_runtime ?w2 sample_body
      = \<lparr>is_lead = JBool False, temperature = JStr ''cold''\<rparr>"
    "detected sample_runtime ?w3 sample_body
      = \<lparr>is_lead = JBool True, temperature = JObj [(''toString'', JNum 1)]\<rparr>"
    by (simp_all add: detected_def sample_defs eval_defs)
  have body: "comment_id sample_body = JStr ''c1''"
    "comment_text sample_body = JStr ''I love this!!''"
    by (simp_all add: sample_body_def)
  have lead: "last (snd (generateReplyHandler sample_runtime sample_world sample_body)) =
     UpdateComment (JStr ''c1'')
       [(''auto_reply_status'', JStr ''replied''), (''sentiment'', JStr ''positive_lead_hot'')]"
    using lead_tagging[OF reach(1), of "''positive''" "''hot''", THEN conjunct2, THEN conjunct1]
    by (simp add: cls det body)
  note no_lead = lead_tagging[OF reach(2), THEN conjunct2, THEN conjunct2, THEN conjunct2,
      rule_format]
  have quiet: "last (snd (generateReplyHandler sample_runtime ?w2 sample_body))
       = ChatLead (JStr ''I love this!!'')"
    using no_lead[THEN conjunct2, THEN conjunct1] by (simp add: det body unconvertible_def)
  have kept: "filter (writes_field ''sentiment'')
        (snd (generateReplyHandler sample_runtime ?w2 sample_body))
       = [UpdateComment (JStr ''c1'')
            [(''sentiment'', JStr ''positive''), (''sentiment_score'', JNum 0.9)]]"
    using no_lead[THEN conjunct2, THEN conjunct2] by (simp add: cls det body)
  have thrown: "fst (generateReplyHandler sample_runtime ?w3 sample_body) = failed_response"
    using lead_tagging[OF reach(3), THEN conjunct2, THEN conjunct2, THEN conjunct1, rule_format,
        THEN conjunct1]
    by (simp add: det unconvertible_def)
  from lead quiet kept thrown show ?thesis by simp
qed

text \<open>
  The claim as stated fails: here the invocation reaches lead detection and the
  detector returns \<^verbatim>\<open>is_lead\<close> true with the temperature \<^verbatim>\<open>{"toString": 1}\<close>; building the
  tag throws, no lead write is sent, and the pipeline answers 500.
\<close>

theorem unconvertible_temperature_fails:
  "reaches_lead_detection sample_runtime
     (sample_world\<lparr>lead_chat := ChatResolves [Some odd_lead_json]\<rparr>) sample_body
   \<and> detected sample_runtime
        (sample_world\<lparr>lead_chat := ChatResolves [Some odd_lead_json]\<rparr>) sample_body
      = \<lparr>is_lead = JBool True, temperature = JObj [(''toString'', JNum 1)]\<rparr>
   \<and> generateReplyHandler sample_runtime
        (sample_world\<lparr>lead_chat := ChatResolves [Some odd_lead_json]\<rparr>) sample_body
      = (\<lparr>status = 500, json = JObj [(''error'', JStr ''Failed to generate reply'')]\<rparr>,
         [SelectSettings (JStr ''u1''), ChatSentiment (JStr ''I love this!!''),
          UpdateComment (JStr ''c1'')
            [(''sentiment'', JStr ''positive''), (''sentiment_score'', JNum 0.9)],
          UpdateComment (JStr ''c1'') [(''is_liked'', JBool True)],
          SelectBrandVoice (JStr ''u1''), SelectSettings (JStr ''u1''),
          ChatReply (JStr ''funny'') (JStr ''english'') (JStr ''positive'') (JStr ''I love this!!''),
          InsertAutoReply
            [(''user_id'', JStr ''u1''), (''comment_id'', JStr ''c1''),
             (''reply_text'', JStr ''So glad you love it!''), (''tone_used'', JStr ''funny''),
             (''language_used'', JStr ''english''), (''reply_status'', JStr ''pending''),
             (''created_by'', JStr ''ai'')],
          ChatLead (JStr ''I love this!!'')])"
  by (simp add: handler_defs stage_defs sample_defs eval_defs failed_response_def)


section \<open>Reply generation never fails\<close>

text \<open>
  C8, as the code has it. \<^verbatim>\<open>generateReply\<close> returns a non-empty text on every input and
  never throws. It has two stock replies: when building the prompt throws (then no
  completion is requested), the completion rejects or the response has no choice, it
  returns \<^verbatim>\<open>"Thanks for your comment! ..."\<close>; when the completion's content is \<^verbatim>\<open>null\<close> or
  empty, it returns \<^verbatim>\<open>"Thanks for the comment! ..."\<close>; otherwise it returns the content.
\<close>

theorem reply_never_empty:
  "fst (generateReply rt bv st chat t u tone lang s) \<noteq> []
   \<and> (prompt_throws rt (data bv) (data st) t tone lang s \<or> chat = ChatRejects
        \<or> chat = ChatResolves []
      \<longrightarrow> fst (generateReply rt bv st chat t u tone lang s)
          = ''Thanks for your comment! '' @ raising_hands)
   \<and> (prompt_throws rt (data bv) (data st) t tone lang s
      \<longrightarrow> snd (generateReply rt bv st chat t u tone lang s)
          = [SelectBrandVoice u, SelectSettings u])
   \<and> (\<not> prompt_throws rt (data bv) (data st) t tone lang s
        \<and> (chat = ChatResolves (None # cs) \<or> chat = ChatResolves (Some [] # cs))
      \<longrightarrow> fst (generateReply rt bv st chat t u tone lang s)
          = ''Thanks for the comment! '' @ raising_hands)
   \<and> (\<not> prompt_throws rt (data bv) (data st) t tone lang s
        \<and> chat = ChatResolves (Some r # cs) \<and> r \<noteq> []
      \<longrightarrow> fst (generateReply rt bv st chat t u tone lang s) = r)"
proof (intro conjI impI)
  show "fst (generateReply rt bv st chat t u tone lang s) \<noteq> []"
    by (auto simp add: generateReply_def generateReply_try_def Let_def first_content_def
        content_or_def fallback_empty_def fallback_error_def
        split: chat_result.splits list.splits option.splits)
next
  assume "prompt_throws rt (data bv) (data st) t tone lang s \<or> chat = ChatRejects
        \<or> chat = ChatResolves []"
  then show "fst (generateReply rt bv st chat t u tone lang s)
          = ''Thanks for your comment! '' @ raising_hands"
    by (auto simp add: generateReply_def generateReply_try_def Let_def first_content_def
        fallback_error_def)
next
  assume "prompt_throws rt (data bv) (data st) t tone lang s"
  then show "snd (generateReply rt bv st chat t u tone lang s)
          = [SelectBrandVoice u, SelectSettings u]"
    by (simp add: generateReply_def generateReply_try_def Let_def)
next
  assume "\<not> prompt_throws rt (data bv) (data st) t tone lang s
    \<and> (chat = ChatResolves (None # cs) \<or> chat = ChatResolves (Some [] # cs))"
  then show "fst (generateReply rt bv st chat t u tone lang s)
          = ''Thanks for the comment! '' @ raising_hands"
    by (auto simp add: generateReply_def generateReply_try_def Let_def first_content_def
        content_or_def fallback_empty_def)
next
  assume "\<not> prompt_throws rt (data bv) (data st) t tone lang s
    \<and> chat = ChatResolves (Some r # cs) \<and> r \<noteq> []"
  then show "fst (generateReply rt bv st chat t u tone lang s) = r"
    by (auto simp add: generateReply_def generateReply_try_def Let_def first_content_def
        content_or_def)
qed

theorem reply_never_empty_witness:
  "generateReply sample_runtime (db_ok JNull) (db_ok sample_settings)
          (ChatResolves [None]) (JStr ''Nice'') (JStr ''u1'') (JStr ''polite'')
          (JStr ''english'') odd_text
     = (''Thanks for your comment! '' @ raising_hands,
        [SelectBrandVoice (JStr ''u1''), SelectSettings (JStr ''u1'')])
   \<and> fst (generateReply sample_runtime (db_ok JNull)
          (db_ok (JObj [(''catchphrases'', JStr ''hey'')]))
          (ChatResolves [Some ''Thanks a lot!'']) (JStr ''Nice'') (JStr ''u1'') (JStr ''polite'')
          (JStr ''english'') (JStr ''positive''))
     = ''Thanks for your comment! '' @ raising_hands
   \<and> fst (generateReply sample_runtime (db_ok JNull) (db_ok sample_settings)
          (ChatResolves [Some []]) (JStr ''Nice'') (JStr ''u1'') (JStr ''polite'')
          (JStr ''english'') (JStr ''positive''))
     = ''Thanks for the comment! '' @ raising_hands
   \<and> fst (generateReply sample_runtime (db_ok JNull) (db_ok sample_settings)
          (ChatResolves [Some ''Thanks a lot!'']) (JStr ''Nice'') (JStr ''u1'') (JStr ''polite'')
          (JStr ''english'') (JStr ''positive''))
     = ''Thanks a lot!''"
proof -
  have throws: "prompt_throws sample_runtime (data (db_ok JNull)) (data (db_ok sample_settings))
        (JStr ''Nice'') (JStr ''polite'') (JStr ''english'') odd_text"
    "prompt_throws sample_runtime (data (db_ok JNull))
        (data (db_ok (JObj [(''catchphrases'', JStr ''hey'')])))
        (JStr ''Nice'') (JStr ''polite'') (JStr ''english'') (JStr ''positive'')"
    by (simp_all add: prompt_throws_def join_throws_def line_throws_def unconvertible_def
        opt_prop_def js_or_def db_ok_def sample_settings_def odd_text_def)
  have builds: "\<not> prompt_throws sample_runtime (data (db_ok JNull)) (data (db_ok sample_settings))
        (JStr ''Nice'') (JStr ''polite'') (JStr ''english'') (JStr ''positive'')"
    by (simp add: prompt_throws_def join_throws_def line_throws_def unconvertible_def
        opt_prop_def js_or_def db_ok_def sample_settings_def)
  note odd = reply_never_empty[of sample_runtime "db_ok JNull" "db_ok sample_settings"
      "ChatResolves [None]" "JStr ''Nice''" "JStr ''u1''" "JStr ''polite''" "JStr ''english''"
      odd_text]
  have a: "generateReply sample_runtime (db_ok JNull) (db_ok sample_settings)
          (ChatResolves [None]) (JStr ''Nice'') (JStr ''u1'') (JStr ''polite'')
          (JStr ''english'') odd_text
     = (''Thanks for your comment! '' @ raising_hands,
        [SelectBrandVoice (JStr ''u1''), SelectSettings (JStr ''u1'')])"
    using odd[THEN conjunct2, THEN conjunct1] odd[THEN conjunct2, THEN conjunct2, THEN conjunct1]
      throws(1)
    by (simp add: prod_eq_iff)
  have b: "fst (generateReply sample_runtime (db_ok JNull)
          (db_ok (JObj [(''catchphrases'', JStr ''hey'')]))
          (ChatResolves [Some ''Thanks a lot!'']) (JStr ''Nice'') (JStr ''u1'') (JStr ''polite'')
          (JStr ''english'') (JStr ''positive''))
     = ''Thanks for your comment! '' @ raising_hands"
    using reply_never_empty[of sample_runtime "db_ok JNull"
        "db_ok (JObj [(''catchphrases'', JStr ''hey'')])" "ChatResolves [Some ''Thanks a lot!'']"
        "JStr ''Nice''" "JStr ''u1''" "JStr ''polite''" "JStr ''english''" "JStr ''positive''",
        THEN conjunct2, THEN conjunct1] throws(2)
    by simp
  have c: "fst (generateReply sample_runtime (db_ok JNull) (db_ok sample_settings)
          (ChatResolves [Some []]) (JStr ''Nice'') (JStr ''u1'') (JStr ''polite'')
          (JStr ''english'') (JStr ''positive''))
     = ''Thanks for the comment! '' @ raising_hands"
    using reply_never_empty[of sample_runtime "db_ok JNull" "db_ok sample_settings"
        "ChatResolves [Some []]" "JStr ''Nice''" "JStr ''u1''" "JStr ''polite''"
        "JStr ''english''" "JStr ''positive''" "[]",
        THEN conjunct2, THEN conjunct2, THEN conjunct2, THEN conjunct1] builds
    by simp
  have d: "fst (generateReply sample_runtime (db_ok JNull) (db_ok sample_settings)
          (ChatResolves [Some ''Thanks a lot!'']) (JStr ''Nice'') (JStr ''u1'') (JStr ''polite'')
          (JStr ''english'') (JStr ''positive''))
     = ''Thanks a lot!''"
    using reply_never_empty[of sample_runtime "db_ok JNull" "db_ok sample_settings"
        "ChatResolves [Some ''Thanks a lot!'']" "JStr ''Nice''" "JStr ''u1''" "JStr ''polite''"
        "JStr ''english''" "JStr ''positive''" "[]" "''Thanks a lot!''",
        THEN conjunct2, THEN conjunct2, THEN conjunct2, THEN conjunct2] builds
    by simp
  from a b c d show ?thesis by simp
qed

text \<open>
  The claim as stated fails: a rejected completion and a completion without content
  are both failures, and the replies returned for them differ.
\<close>

theorem two_fallback_replies:
  "fst (generateReply sample_runtime (db_ok JNull) (db_ok sample_settings) ChatRejects
          (JStr ''Nice'') (JStr ''u1'') (JStr ''polite'') (JStr ''english'') (JStr ''positive''))
     = ''Thanks for your comment! '' @ raising_hands
   \<and> fst (generateReply sample_runtime (db_ok JNull) (db_ok sample_settings) (ChatResolves [None])
          (JStr ''Nice'') (JStr ''u1'') (JStr ''polite'') (JStr ''english'') (JStr ''positive''))
     = ''Thanks for the comment! '' @ raising_hands
   \<and> fst (generateReply sample_runtime (db_ok JNull) (db_ok sample_settings) ChatRejects
          (JStr ''Nice'') (JStr ''u1'') (JStr ''polite'') (JStr ''english'') (JStr ''positive''))
     \<noteq> fst (generateReply sample_runtime (db_ok JNull) (db_ok sample_settings) (ChatResolves [None])
          (JStr ''Nice'') (JStr ''u1'') (JStr ''polite'') (JStr ''english'') (JStr ''positive''))"
  by (simp add: eval_defs sample_defs fallback_error_def fallback_empty_def Let_def)

section \<open>Payloads with missing fields\<close>

lemma handler_first_request:
  "take 1 (snd (generateReplyHandler rt w b)) = [SelectSettings (user_id b)]"
  by (cases rule: handler_cases[of w rt b])
    (simp_all add: classification_events_def insert_events_def)

lemma handler_client_error:
  "(400 \<le> status (fst (generateReplyHandler rt w b))
     \<and> status (fst (generateReplyHandler rt w b)) < 500) = (\<not> settings_found w)"
proof (cases rule: handler_cases[of w rt b])
  case (insert_ok resp)
  then show ?thesis
    by (auto simp add: failed_response_def replied_response_def)
qed (simp_all add: settings_not_found_def ignored_response_def escalated_response_def
    failed_response_def)

lemma classification_written:
  assumes "settings_found w"
  shows "UpdateComment (comment_id b)
           [(''sentiment'', sentiment (classified rt w b)),
            (''sentiment_score'', score (classified rt w b))]
         \<in> set (snd (generateReplyHandler rt w b))"
  using assms
  by (cases rule: handler_cases[of w rt b])
    (simp_all add: classification_events_def insert_events_def)

text \<open>
  C9, as the code has it. The handler does not check the payload for its fields.
  When the payload is absent (\<^verbatim>\<open>req.body\<close> is \<^verbatim>\<open>undefined\<close> or \<^verbatim>\<open>null\<close>), destructuring it
  throws and the pipeline answers 500 without having sent a request. For every other
  payload, also one in which fields are missing, the first request sent is the
  settings lookup for the payload's \<^verbatim>\<open>user_id\<close>. The response is a client error exactly
  when that lookup returns an error or no row; it is then the 404 response
  \<^verbatim>\<open>{error: "Settings not found"}\<close>, and nothing else has been sent. In every other case
  the pipeline goes on and writes the classification of the payload's
  \<^verbatim>\<open>comment_text\<close> to the Comment.
\<close>

theorem payload_not_validated:
  "(body = JUndefined \<or> body = JNull
      \<longrightarrow> generateReplyHandler_req rt w body = (failed_response, []))
   \<and> (destructure_body body = Inr b
      \<longrightarrow> user_id b = read_prop body ''user_id''
          \<and> comment_text b = read_prop body ''comment_text''
          \<and> generateReplyHandler_req rt w body = generateReplyHandler rt w b
          \<and> take 1 (snd (generateReplyHandler_req rt w body)) = [SelectSettings (user_id b)]
          \<and> (400 \<le> status (fst (generateReplyHandler_req rt w body))
                \<and> status (fst (generateReplyHandler_req rt w body)) < 500
              \<longleftrightarrow> \<not> settings_found w)
          \<and> (\<not> settings_found w
              \<longrightarrow> generateReplyHandler_req rt w body
                  = (settings_not_found, [SelectSettings (user_id b)]))
          \<and> (settings_found w
              \<longrightarrow> UpdateComment (comment_id b)
                    [(''sentiment'', sentiment (classified rt w b)),
                     (''sentiment_score'', score (classified rt w b))]
                  \<in> set (snd (generateReplyHandler_req rt w body))))"
proof (intro conjI impI)
  assume "body = JUndefined \<or> body = JNull"
  then show "generateReplyHandler_req rt w body = (failed_response, [])"
    by (auto simp add: generateReplyHandler_req_def destructure_body_def)
next
  assume d: "destructure_body body = Inr b"
  then show "user_id b = read_prop body ''user_id''"
    "comment_text b = read_prop body ''comment_text''"
    by (auto simp add: destructure_body_def split: if_splits)
  from d show eq: "generateReplyHandler_req rt w body = generateReplyHandler rt w b"
    by (simp add: generateReplyHandler_req_def)
  show "take 1 (snd (generateReplyHandler_req rt w body)) = [SelectSettings (user_id b)]"
    using handler_first_request[of rt w b] by (simp add: eq)
  show "(400 \<le> status (fst (generateReplyHandler_req rt w body))
                \<and> status (fst (generateReplyHandler_req rt w body)) < 500)
              = (\<not> settings_found w)"
    using handler_client_error[of rt w b] by (simp add: eq)
next
  assume d: "destructure_body body = Inr b" and "\<not> settings_found w"
  then show "generateReplyHandler_req rt w body
                  = (settings_not_found, [SelectSettings (user_id b)])"
    using handler_settings_missing[of w rt b] by (simp add: generateReplyHandler_req_def)
next
  assume d: "destructure_body body = Inr b" and "settings_found w"
  then show "UpdateComment (comment_id b)
                    [(''sentiment'', sentiment (classified rt w b)),
                     (''sentiment_score'', score (classified rt w b))]
                  \<in> set (snd (generateReplyHandler_req rt w body))"
    using classification_written[of w b rt] by (simp add: generateReplyHandler_req_def)
qed

theorem payload_not_validated_witness:
  "generateReplyHandler_req sample_runtime sample_world JUndefined = (failed_response, [])
   \<and> generateReplyHandler_req sample_runtime (sample_world\<lparr>settings_select := db_failed\<rparr>)
        (JObj [])
      = (settings_not_found, [SelectSettings JUndefined])
   \<and> take 1 (snd (generateReplyHandler_req sample_runtime sample_world
        (JObj [(''comment_id'', JStr ''c1''), (''user_id'', JStr ''u1'')])))
      = [SelectSettings (JStr ''u1'')]
   \<and> UpdateComment (JStr ''c1'')
        [(''sentiment'', JStr ''positive''), (''sentiment_score'', JNum 0.9)]
      \<in> set (snd (generateReplyHandler_req sample_runtime sample_world
           (JObj [(''comment_id'', JStr ''c1''), (''user_id'', JStr ''u1'')])))"
proof -
  let ?b0 = "\<lparr>comment_id = JUndefined, user_id = JUndefined, comment_text = JUndefined,
      platform = JUndefined\<rparr>"
  let ?b1 = "\<lparr>comment_id = JStr ''c1'', user_id = JStr ''u1'', comment_text = JUndefined,
      platform = JUndefined\<rparr>"
  let ?p1 = "JObj [(''comment_id'', JStr ''c1''), (''user_id'', JStr ''u1'')]"
  have d0: "destructure_body (JObj []) = Inr ?b0"
    by (simp add: destructure_body_def)
  have d1: "destructure_body ?p1 = Inr ?b1"
    by (simp add: destructure_body_def)
  have missing: "\<not> settings_found (sample_world\<lparr>settings_select := db_failed\<rparr>)"
    by (simp add: settings_found_def sample_defs)
  have found: "settings_found sample_world"
    by (simp add: settings_found_def sample_defs)
  have cls: "classified sample_runtime sample_world ?b1
      = \<lparr>sentiment = JStr ''positive'', score = JNum 0.9\<rparr>"
    by (simp add: classified_def sample_defs eval_defs)
  have a: "generateReplyHandler_req sample_runtime sample_world JUndefined = (failed_response, [])"
    using payload_not_validated[of JUndefined sample_runtime sample_world, THEN conjunct1]
    by simp
  note p0 = payload_not_validated[of "JObj []" sample_runtime
      "sample_world\<lparr>settings_select := db_failed\<rparr>" ?b0, THEN conjunct2, rule_format, OF d0]
  have b: "generateReplyHandler_req sample_runtime (sample_world\<lparr>settings_select := db_failed\<rparr>)
        (JObj [])
      = (settings_not_found, [SelectSettings JUndefined])"
    using p0[THEN conjunct2, THEN conjunct2, THEN conjunct2, THEN conjunct2, THEN conjunct2,
        THEN conjunct1] missing
    by simp
  note p1 = payload_not_validated[of ?p1 sample_runtime sample_world ?b1, THEN conjunct2,
      rule_format, OF d1]
  have c: "take 1 (snd (generateReplyHandler_req sample_runtime sample_world ?p1))
      = [SelectSettings (JStr ''u1'')]"
    using p1[THEN conjunct2, THEN conjunct2, THEN conjunct2, THEN conjunct1] by simp
  have d: "UpdateComment (JStr ''c1'')
        [(''sentiment'', JStr ''positive''), (''sentiment_score'', JNum 0.9)]
      \<in> set (snd (generateReplyHandler_req sample_runtime sample_world ?p1))"
    using p1[THEN conjunct2, THEN conjunct2, THEN conjunct2, THEN conjunct2, THEN conjunct2,
        THEN conjunct2] found cls
    by simp
  from a b c d show ?thesis by simp
qed

text \<open>
  The claim as stated fails: this payload has neither \<^verbatim>\<open>comment_text\<close> nor
  \<^verbatim>\<open>platform\<close>, and the handler calls the three services, writes the Comment, inserts an
  AutoReply row and answers with status 200.
\<close>

theorem missing_fields_accepted:
  "generateReplyHandler sample_runtime sample_world
     \<lparr>comment_id = JStr ''c1'', user_id = JStr ''u1'', comment_text = JUndefined,
      platform = JUndefined\<rparr>
   = (\<lparr>status = 200,
       json = JObj [(''success'', JBool True), (''action'', JStr ''replied''),
                    (''reply'', JObj [(''id'', JStr ''r1''), (''text'', JStr ''So glad you love it!''),
                                      (''tone'', JStr ''funny''), (''language'', JStr ''english''),
                                      (''sentiment'', JStr ''positive''),
                                      (''is_sales_lead'', JBool True),
                                      (''lead_temperature'', JStr ''hot'')])]\<rparr>,
      [SelectSettings (JStr ''u1''), ChatSentiment JUndefined,
       UpdateComment (JStr ''c1'')
         [(''sentiment'', JStr ''positive''), (''sentiment_score'', JNum 0.9)],
       SelectBrandVoice (JStr ''u1''), SelectSettings (JStr ''u1''),
       ChatReply (JStr ''funny'') (JStr ''english'') (JStr ''positive'') JUndefined,
       InsertAutoReply
         [(''user_id'', JStr ''u1''), (''comment_id'', JStr ''c1''),
          (''reply_text'', JStr ''So glad you love it!''), (''tone_used'', JStr ''funny''),
          (''language_used'', JStr ''english''), (''reply_status'', JStr ''pending''),
          (''created_by'', JStr ''ai'')],
       ChatLead JUndefined,
       UpdateComment (JStr ''c1'')
         [(''auto_reply_status'', JStr ''replied''), (''sentiment'', JStr ''positive_lead_hot'')]])"
  by (simp add: handler_defs sample_defs eval_defs replied_response_def)

end
